theory Spec2Isabelle
  imports Complex_Main
begin

text \<open>
  A parser and evaluator of arithmetic and comparison expressions: \<open>Parser\<close> turns an
  infix expression into a tree of \<open>NumberNode\<close> and \<open>BinaryOperationNode\<close> (tokenizer,
  Shunting-Yard, tree builder), and a tree can be evaluated, printed, serialized and
  deserialized. The definitions follow \<open>Parser.ts\<close>, \<open>NumberNode.ts\<close> and
  \<open>BinaryOperationNode.ts\<close>; the theorems are about them.
\<close>

section \<open>Values of the host language\<close>

text \<open>
  The program computes with the host language's \<open>number\<close> type, the binary
  floating-point numbers of 64 bits (float64). A number is \<open>NaN\<close>, \<open>Infinity\<close>,
  \<open>-Infinity\<close> or finite; a finite number is given by its value, a rational. The finite
  numbers the program computes are float64 numbers, because reading a number from the
  input and every arithmetic operation round to float64 (\<open>round_float64\<close> below).
  A negative zero is not modelled: nothing in this program can tell it from zero (it
  compares equal to \<open>0\<close>, prints as \<open>0\<close>, and the division guard of \<open>evaluate\<close>
  catches it like \<open>0\<close>).
\<close>

datatype number = NaN | PosInfinity | NegInfinity | Finite rat

definition signed_infinity :: "bool \<Rightarrow> number" where
  "signed_infinity negative = (if negative then NegInfinity else PosInfinity)"

subsection \<open>Rounding to float64\<close>

text \<open>
  A finite float64 number other than 0 is \<open>m * 2^(e - 52)\<close> or its negative, for
  integers \<open>m\<close> and \<open>e\<close> with \<open>2^52 \<le> m < 2^53\<close> and \<open>-1022 \<le> e \<le> 1023\<close> (normal), or
  with \<open>0 < m < 2^52\<close> and \<open>e = -1022\<close> (subnormal). \<open>round_float64 q\<close> is the float64
  number nearest to the rational \<open>q\<close>; of two that are equally near, the one with the
  even \<open>m\<close>. A magnitude that rounds up to \<open>2^1024\<close> gives an infinity, one that rounds
  down to 0 gives 0.

  \<open>bit_length a\<close> is the number of binary digits of \<open>a\<close>. For positive \<open>a\<close> and \<open>b\<close>,
  \<open>binary_exponent a b\<close> is the \<open>e\<close> with \<open>2^e \<le> a / b < 2^(e + 1)\<close>, and
  \<open>round_half_even n d\<close> is the integer nearest to \<open>n / d\<close>, the even one of two. Since
  \<open>nat\<close> of a negative integer is 0, one of \<open>2 ^ nat (52 - e)\<close> and \<open>2 ^ nat (e - 52)\<close>
  is 1, and their quotient is \<open>2^(52 - e)\<close>.
\<close>

function bit_length :: "int \<Rightarrow> int" where
  "bit_length a = (if a \<le> 0 then 0 else 1 + bit_length (a div 2))"
  by pat_completeness auto
termination
  by (relation "measure nat") auto

declare bit_length.simps [simp del]

definition binary_exponent :: "int \<Rightarrow> int \<Rightarrow> int" where
  "binary_exponent a b =
     (let e = bit_length a - bit_length b
      in if b * 2 ^ nat e \<le> a * 2 ^ nat (- e) then e else e - 1)"

definition round_half_even :: "int \<Rightarrow> int \<Rightarrow> int" where
  "round_half_even n d =
     (let f = n div d; r = 2 * (n mod d)
      in if r < d then f else if d < r then f + 1 else if even f then f else f + 1)"

definition round_float64 :: "rat \<Rightarrow> number" where
  "round_float64 q =
     (if q = 0 then Finite 0
      else
        let (a, b) = quotient_of \<bar>q\<bar>;
            e = max (binary_exponent a b) (- 1022)
        in if 1023 < e then signed_infinity (q < 0)
           else
             let m = round_half_even (a * 2 ^ nat (52 - e)) (b * 2 ^ nat (e - 52))
             in if e = 1023 \<and> m = 2 ^ 53 then signed_infinity (q < 0)
                else Finite ((if q < 0 then - 1 else 1) *
                       (of_int (m * 2 ^ nat (e - 52)) / of_int (2 ^ nat (52 - e)))))"

text \<open>The rationals that are float64 numbers.\<close>

definition representable :: "rat \<Rightarrow> bool" where
  "representable q \<longleftrightarrow> round_float64 q = Finite q"

subsection \<open>Values and operators\<close>

text \<open>The result of \<open>evaluate\<close> has type \<open>number | boolean\<close>.\<close>

datatype jsvalue = Number number | Boolean bool

text \<open>Numeric coercion of an operand of an arithmetic or relational operator.\<close>

fun ToNumber :: "jsvalue \<Rightarrow> number" where
  "ToNumber (Number n) = n"
| "ToNumber (Boolean b) = Finite (if b then 1 else 0)"

fun is_infinite :: "number \<Rightarrow> bool" where
  "is_infinite PosInfinity = True"
| "is_infinite NegInfinity = True"
| "is_infinite _ = False"

fun is_negative :: "number \<Rightarrow> bool" where
  "is_negative NegInfinity = True"
| "is_negative (Finite q) = (q < 0)"
| "is_negative _ = False"

fun is_zero :: "number \<Rightarrow> bool" where
  "is_zero (Finite q) = (q = 0)"
| "is_zero _ = False"

fun finite_part :: "number \<Rightarrow> rat" where
  "finite_part (Finite q) = q"
| "finite_part _ = 0"

text \<open>The operators \<open>+\<close>, \<open>-\<close>, \<open>*\<close> and \<open>/\<close> on numbers: the exact result, rounded
  to float64.\<close>

definition number_add :: "number \<Rightarrow> number \<Rightarrow> number" where
  "number_add a b =
     (if a = NaN \<or> b = NaN then NaN
      else if is_infinite a \<and> is_infinite b then (if a = b then a else NaN)
      else if is_infinite a then a
      else if is_infinite b then b
      else round_float64 (finite_part a + finite_part b))"

definition number_negate :: "number \<Rightarrow> number" where
  "number_negate a =
     (case a of NaN \<Rightarrow> NaN | PosInfinity \<Rightarrow> NegInfinity | NegInfinity \<Rightarrow> PosInfinity
      | Finite q \<Rightarrow> Finite (- q))"

definition number_sub :: "number \<Rightarrow> number \<Rightarrow> number" where
  "number_sub a b = number_add a (number_negate b)"

definition number_mul :: "number \<Rightarrow> number \<Rightarrow> number" where
  "number_mul a b =
     (if a = NaN \<or> b = NaN then NaN
      else if is_infinite a \<or> is_infinite b then
        (if is_zero a \<or> is_zero b then NaN
         else signed_infinity (is_negative a \<noteq> is_negative b))
      else round_float64 (finite_part a * finite_part b))"

text \<open>
  Division. A finite zero divisor is the positive zero: the only zero that reaches the
  division of \<open>evaluate\<close> is the coercion of \<open>false\<close>; the guard stops every other.
\<close>

definition number_div :: "number \<Rightarrow> number \<Rightarrow> number" where
  "number_div a b =
     (if a = NaN \<or> b = NaN then NaN
      else if is_infinite a then
        (if is_infinite b then NaN
         else signed_infinity (is_negative a \<noteq> is_negative b))
      else if is_infinite b then Finite 0
      else if is_zero b then
        (if is_zero a then NaN else signed_infinity (is_negative a))
      else round_float64 (finite_part a / finite_part b))"

text \<open>The relational operator \<open><\<close> on numbers: false as soon as an operand is \<open>NaN\<close>.\<close>

fun number_less :: "number \<Rightarrow> number \<Rightarrow> bool" where
  "number_less NaN _ = False"
| "number_less _ NaN = False"
| "number_less PosInfinity _ = False"
| "number_less _ NegInfinity = False"
| "number_less NegInfinity _ = True"
| "number_less _ PosInfinity = True"
| "number_less (Finite a) (Finite b) = (a < b)"

text \<open>Strict equality \<open>===\<close>: operands of different types are never equal, and \<open>NaN\<close>
  is not equal to itself.\<close>

fun strict_equal :: "jsvalue \<Rightarrow> jsvalue \<Rightarrow> bool" where
  "strict_equal (Number a) (Number b) = (a \<noteq> NaN \<and> a = b)"
| "strict_equal (Boolean a) (Boolean b) = (a = b)"
| "strict_equal _ _ = False"

section \<open>Strings\<close>

text \<open>
  A string is a list of characters, read as the code units \<open>U+0000\<close> to \<open>U+00FF\<close>.
  In that range the class \<open>\s\<close> of the regular expressions holds the characters below.
\<close>

definition is_whitespace :: "char \<Rightarrow> bool" where
  "is_whitespace c \<longleftrightarrow>
     c \<in> set [CHR 0x09, CHR 0x0A, CHR 0x0B, CHR 0x0C, CHR 0x0D, CHR 0x20, CHR 0xA0]"

text \<open>The character classes \<open>[0-9]\<close>, \<open>[0-9.]\<close> and \<open>[+\-*/()<>=]\<close>.\<close>

definition is_digit :: "char \<Rightarrow> bool" where
  "is_digit c \<longleftrightarrow> c \<in> set ''0123456789''"

definition is_numeric :: "char \<Rightarrow> bool" where
  "is_numeric c \<longleftrightarrow> c \<in> set ''0123456789.''"

definition is_symbol :: "char \<Rightarrow> bool" where
  "is_symbol c \<longleftrightarrow> c \<in> set ''+-*/()<>=''"

text \<open>The value of a string of decimal digits.\<close>

definition digit_value :: "char \<Rightarrow> int" where
  "digit_value c = of_char c - 48"

definition decimal :: "string \<Rightarrow> int" where
  "decimal ds = foldl (\<lambda>a c. 10 * a + digit_value c) 0 ds"

text \<open>
  \<open>parseFloat\<close> of the host language, on the strings the tokenizer passes to it
  (characters of \<open>[0-9.]\<close> only, so no sign, exponent or leading blank): the longest
  prefix that is a decimal literal is read, digits with at most one point and at least
  one digit; the rest is ignored. The result is the value of that prefix rounded to
  float64. Without such a prefix the result is \<open>NaN\<close>.
\<close>

definition parseFloat :: "string \<Rightarrow> number" where
  "parseFloat s =
     (let ip = takeWhile is_digit s;
          rest = dropWhile is_digit s;
          fp = (case rest of [] \<Rightarrow> [] | c # cs \<Rightarrow> if c = CHR ''.'' then takeWhile is_digit cs else [])
      in if ip = [] \<and> fp = [] then NaN
         else round_float64 (of_int (decimal ip) + of_int (decimal fp) / 10 ^ length fp))"

text \<open>
  \<open>toString\<close> of a number. An integer below \<open>2^53\<close> in absolute value prints as its
  decimal digits, with a minus sign when negative. Any other finite number prints as the
  shortest decimal that rounds to it, in a notation that depends on its size; that is
  left to the parameter \<open>other\<close>.
\<close>

function int_toString :: "int \<Rightarrow> string" where
  "int_toString n =
     (if n < 10 then [''0123456789'' ! nat n]
      else int_toString (n div 10) @ [''0123456789'' ! nat (n mod 10)])"
  by pat_completeness auto
termination
  by (relation "measure nat") auto

declare int_toString.simps [simp del]

definition number_toString :: "(rat \<Rightarrow> string) \<Rightarrow> number \<Rightarrow> string" where
  "number_toString other v =
     (case v of
        NaN \<Rightarrow> ''NaN''
      | PosInfinity \<Rightarrow> ''Infinity''
      | NegInfinity \<Rightarrow> ''-Infinity''
      | Finite q \<Rightarrow>
          if of_int \<lfloor>q\<rfloor> = q \<and> \<bar>q\<bar> < 2 ^ 53 then
            (if q < 0 then ''-'' @ int_toString \<lfloor>- q\<rfloor> else int_toString \<lfloor>q\<rfloor>)
          else other q)"

section \<open>Errors\<close>

text \<open>One constructor for each \<open>throw new Error(...)\<close> of the program, named after the
  spec's error kinds. \<open>UnexpectedToken\<close> carries the character and its position.\<close>

datatype error =
    InvalidParentheses
  | UnexpectedToken char nat
  | InvalidOperatorStack
  | InsufficientOperands
  | InvalidExpression
  | DivisionByZero
  | UnknownOperator string
  | UnrecognizedNodeType

section \<open>The abstract syntax tree\<close>

text \<open>\<open>NumberNode(value)\<close> and \<open>BinaryOperationNode(left, right, operator)\<close>. The operator
  is the string the node was built with.\<close>

datatype ASTNode =
    NumberNode number
  | BinaryOperationNode ASTNode ASTNode string

text \<open>The \<open>switch\<close> of \<open>BinaryOperationNode.evaluate\<close>, on the two operand values.\<close>

definition apply_operator :: "string \<Rightarrow> jsvalue \<Rightarrow> jsvalue \<Rightarrow> error + jsvalue" where
  "apply_operator operator leftVal rightVal =
     (if operator = ''+'' then Inr (Number (number_add (ToNumber leftVal) (ToNumber rightVal)))
      else if operator = ''-'' then Inr (Number (number_sub (ToNumber leftVal) (ToNumber rightVal)))
      else if operator = ''*'' then Inr (Number (number_mul (ToNumber leftVal) (ToNumber rightVal)))
      else if operator = ''/'' then
        (if strict_equal rightVal (Number (Finite 0)) then Inl DivisionByZero
         else Inr (Number (number_div (ToNumber leftVal) (ToNumber rightVal))))
      else if operator = ''<'' then Inr (Boolean (number_less (ToNumber leftVal) (ToNumber rightVal)))
      else if operator = ''>'' then Inr (Boolean (number_less (ToNumber rightVal) (ToNumber leftVal)))
      else if operator = ''='' then Inr (Boolean (strict_equal leftVal rightVal))
      else Inl (UnknownOperator operator))"

fun evaluate :: "ASTNode \<Rightarrow> error + jsvalue" where
  "evaluate (NumberNode v) = Inr (Number v)"
| "evaluate (BinaryOperationNode left right operator) =
     (case evaluate left of
        Inl e \<Rightarrow> Inl e
      | Inr leftVal \<Rightarrow>
          (case evaluate right of
             Inl e \<Rightarrow> Inl e
           | Inr rightVal \<Rightarrow> apply_operator operator leftVal rightVal))"

fun print :: "(rat \<Rightarrow> string) \<Rightarrow> ASTNode \<Rightarrow> string" where
  "print other (NumberNode v) = number_toString other v"
| "print other (BinaryOperationNode left right operator) =
     ''('' @ print other left @ '' '' @ operator @ '' '' @ print other right @ '')''"

text \<open>
  The serialized form is an object with a \<open>type\<close> tag. The third constructor stands for
  an object whose tag is neither \<open>NumberNode\<close> nor \<open>BinaryOperationNode\<close>.
\<close>

datatype SerializedASTNode =
    SerializedNumberNode number
  | SerializedBinaryOperationNode string SerializedASTNode SerializedASTNode
  | SerializedOther string

fun serialize :: "ASTNode \<Rightarrow> SerializedASTNode" where
  "serialize (NumberNode v) = SerializedNumberNode v"
| "serialize (BinaryOperationNode left right operator) =
     SerializedBinaryOperationNode operator (serialize left) (serialize right)"

fun deserialize :: "SerializedASTNode \<Rightarrow> error + ASTNode" where
  "deserialize (SerializedNumberNode v) = Inr (NumberNode v)"
| "deserialize (SerializedBinaryOperationNode operator left right) =
     (case deserialize left of
        Inl e \<Rightarrow> Inl e
      | Inr leftNode \<Rightarrow>
          (case deserialize right of
             Inl e \<Rightarrow> Inl e
           | Inr rightNode \<Rightarrow> Inr (BinaryOperationNode leftNode rightNode operator)))"
| "deserialize (SerializedOther tag) = Inl UnrecognizedNodeType"

section \<open>The parser\<close>

subsection \<open>Parenthesis check\<close>

definition closeToOpen :: "char \<Rightarrow> string option" where
  "closeToOpen c = (if c = CHR '')'' then Some ''('' else None)"

text \<open>The loop of \<open>isValid\<close>; the head of the list is the top of the stack.\<close>

fun isValid_loop :: "string \<Rightarrow> string list \<Rightarrow> bool" where
  "isValid_loop [] stack = (length stack = 0)"
| "isValid_loop (c # cs) stack =
     (if c = CHR ''('' then isValid_loop cs ([c] # stack)
      else (case closeToOpen c of
              Some opening \<Rightarrow>
                (case stack of
                   topOp # below \<Rightarrow> if topOp = opening then isValid_loop cs below else False
                 | [] \<Rightarrow> False)
            | None \<Rightarrow> isValid_loop cs stack))"

definition isValid :: "string \<Rightarrow> bool" where
  "isValid s = isValid_loop s []"

subsection \<open>Tokenizer\<close>

datatype token = NumberToken number | StringToken string

text \<open>
  The loop of \<open>tokenize\<close>: \<open>i\<close> is the position, the string argument is the input from
  position \<open>i\<close> on, \<open>res\<close> the tokens found so far. The inner loop takes the longest run
  of \<open>[0-9.]\<close> characters.
\<close>

function tokenize_loop :: "nat \<Rightarrow> string \<Rightarrow> token list \<Rightarrow> error + token list" where
  "tokenize_loop i [] res = Inr res"
| "tokenize_loop i (c # cs) res =
     (if is_numeric c then
        tokenize_loop (i + length (c # takeWhile is_numeric cs)) (dropWhile is_numeric cs)
          (res @ [NumberToken (parseFloat (c # takeWhile is_numeric cs))])
      else if is_symbol c then tokenize_loop (i + 1) cs (res @ [StringToken [c]])
      else Inl (UnexpectedToken c i))"
  by pat_completeness auto
termination
  by (relation "measure (\<lambda>(i, s, res). length s)")
     (auto simp: le_imp_less_Suc length_dropWhile_le)

definition tokenize :: "string \<Rightarrow> error + token list" where
  "tokenize s = tokenize_loop 0 s []"

subsection \<open>Shunting-Yard\<close>

definition isVaildOp :: "string \<Rightarrow> bool" where
  "isVaildOp t \<longleftrightarrow> t \<in> set [''+'', ''-'', ''*'', ''/'', ''<'', ''>'', ''='']"

definition precedence :: "string \<Rightarrow> nat" where
  "precedence op = (if op = ''+'' \<or> op = ''-'' then 1 else 2)"

text \<open>The inner loop for an operator token: pops the operators of higher or equal
  precedence into the output queue. The head of \<open>opStack\<close> is its top.\<close>

fun pop_operators :: "string \<Rightarrow> token list \<Rightarrow> string list \<Rightarrow> error + token list \<times> string list" where
  "pop_operators tk outputQueue [] = Inr (outputQueue, [])"
| "pop_operators tk outputQueue (topOp # opStack) =
     (if isVaildOp topOp \<and> precedence topOp \<ge> precedence tk then
        (if topOp = [] then Inl InvalidOperatorStack
         else pop_operators tk (outputQueue @ [StringToken topOp]) opStack)
      else Inr (outputQueue, topOp # opStack))"

text \<open>The inner loop for \<open>)\<close>: pops into the output queue until the top is \<open>(\<close>.\<close>

fun pop_until_paren :: "token list \<Rightarrow> string list \<Rightarrow> error + token list \<times> string list" where
  "pop_until_paren outputQueue [] = Inr (outputQueue, [])"
| "pop_until_paren outputQueue (topOp # opStack) =
     (if topOp \<noteq> ''('' then
        (if topOp = [] then Inl InvalidOperatorStack
         else pop_until_paren (outputQueue @ [StringToken topOp]) opStack)
      else Inr (outputQueue, topOp # opStack))"

text \<open>\<open>opStack.pop()\<close> with the result dropped: no effect on an empty stack.\<close>

fun pop :: "'a list \<Rightarrow> 'a list" where
  "pop [] = []"
| "pop (topOp # below) = below"

fun shunting_yard :: "token list \<Rightarrow> token list \<Rightarrow> string list \<Rightarrow> error + token list \<times> string list" where
  "shunting_yard [] outputQueue opStack = Inr (outputQueue, opStack)"
| "shunting_yard (NumberToken n # tokens) outputQueue opStack =
     shunting_yard tokens (outputQueue @ [NumberToken n]) opStack"
| "shunting_yard (StringToken tk # tokens) outputQueue opStack =
     (if isVaildOp tk then
        (case pop_operators tk outputQueue opStack of
           Inl e \<Rightarrow> Inl e
         | Inr (outputQueue', opStack') \<Rightarrow> shunting_yard tokens outputQueue' (tk # opStack'))
      else if tk = ''('' then shunting_yard tokens outputQueue (tk # opStack)
      else
        (case pop_until_paren outputQueue opStack of
           Inl e \<Rightarrow> Inl e
         | Inr (outputQueue', opStack') \<Rightarrow> shunting_yard tokens outputQueue' (pop opStack')))"

text \<open>The loop that drains the remaining operators into the output queue.\<close>

fun drain :: "token list \<Rightarrow> string list \<Rightarrow> error + token list" where
  "drain outputQueue [] = Inr outputQueue"
| "drain outputQueue (topOp # opStack) =
     (if topOp = [] then Inl InvalidOperatorStack
      else drain (outputQueue @ [StringToken topOp]) opStack)"

subsection \<open>Tree builder\<close>

text \<open>The loop over the postfix sequence; the head of \<open>astStack\<close> is its top, so the
  first node popped is the right operand.\<close>

fun build :: "token list \<Rightarrow> ASTNode list \<Rightarrow> error + ASTNode list" where
  "build [] astStack = Inr astStack"
| "build (NumberToken n # tokens) astStack = build tokens (NumberNode n # astStack)"
| "build (StringToken tk # tokens) astStack =
     (case astStack of
        right # left # below \<Rightarrow> build tokens (BinaryOperationNode left right tk # below)
      | _ \<Rightarrow> Inl InsufficientOperands)"

subsection \<open>parse\<close>

definition strip_whitespace :: "string \<Rightarrow> string" where
  "strip_whitespace expr = filter (\<lambda>c. \<not> is_whitespace c) expr"

text \<open>The second part of \<open>parse\<close>: the Shunting-Yard loop from empty structures, then
  the drain loop.\<close>

definition infix_to_rpn :: "token list \<Rightarrow> error + token list" where
  "infix_to_rpn tokens =
     (case shunting_yard tokens [] [] of
        Inl e \<Rightarrow> Inl e
      | Inr (outputQueue, opStack) \<Rightarrow> drain outputQueue opStack)"

text \<open>The third part of \<open>parse\<close>: the tree builder from an empty stack, then the check
  that exactly one node is left.\<close>

definition rpn_to_ast :: "token list \<Rightarrow> error + ASTNode" where
  "rpn_to_ast rpn =
     (case build rpn [] of
        Inl e \<Rightarrow> Inl e
      | Inr astStack \<Rightarrow>
          if length astStack \<noteq> 1 then Inl InvalidExpression else Inr (hd astStack))"

definition parse :: "string \<Rightarrow> error + ASTNode" where
  "parse expr =
     (let s = strip_whitespace expr in
      if \<not> isValid s then Inl InvalidParentheses
      else
        (case tokenize s of
           Inl e \<Rightarrow> Inl e
         | Inr tokens \<Rightarrow>
             (case infix_to_rpn tokens of
                Inl e \<Rightarrow> Inl e
              | Inr rpn \<Rightarrow> rpn_to_ast rpn)))"

text \<open>The callers (the demo runner and the line reader) evaluate the tree that
  \<open>parse\<close> returns: \<open>Parser.parse(ex).evaluate()\<close>.\<close>

definition parse_and_evaluate :: "string \<Rightarrow> error + jsvalue" where
  "parse_and_evaluate expr = (case parse expr of Inl e \<Rightarrow> Inl e | Inr ast \<Rightarrow> evaluate ast)"

section \<open>Reference: arithmetic expressions and their value\<close>

text \<open>
  The expressions built from decimal numbers, \<open>+ - * /\<close> and parentheses, as the
  usual grammar with left-associative operators where \<open>*\<close> and \<open>/\<close> bind tighter than
  \<open>+\<close> and \<open>-\<close>:
  \<^item> additive ::= multiplicative | additive \<open>+\<close> multiplicative | additive \<open>-\<close> multiplicative
  \<^item> multiplicative ::= primary | multiplicative \<open>*\<close> primary | multiplicative \<open>/\<close> primary
  \<^item> primary ::= number | \<open>(\<close> additive \<open>)\<close>

  A number is written as a string of digits, optionally followed by a point and a string
  of digits, with at least one digit in all. This part is not taken from the program: it
  says what a valid expression is and what its value is.
\<close>

datatype primary = Literal string "string option" | Group additive
  and multiplicative =
    Primary primary
  | Times multiplicative primary
  | Over multiplicative primary
  and additive =
    Multiplicative multiplicative
  | Plus additive multiplicative
  | Minus additive multiplicative

definition literal_text :: "string \<Rightarrow> string option \<Rightarrow> string" where
  "literal_text ip fp = ip @ (case fp of None \<Rightarrow> [] | Some f \<Rightarrow> CHR ''.'' # f)"

definition literal_value :: "string \<Rightarrow> string option \<Rightarrow> rat" where
  "literal_value ip fp =
     of_int (decimal ip) + (case fp of None \<Rightarrow> 0 | Some f \<Rightarrow> of_int (decimal f) / 10 ^ length f)"

definition wf_literal :: "string \<Rightarrow> string option \<Rightarrow> bool" where
  "wf_literal ip fp \<longleftrightarrow>
     list_all is_digit ip \<and>
     (case fp of None \<Rightarrow> ip \<noteq> [] | Some f \<Rightarrow> list_all is_digit f \<and> (ip \<noteq> [] \<or> f \<noteq> []))"

primrec wf_primary :: "primary \<Rightarrow> bool"
  and wf_multiplicative :: "multiplicative \<Rightarrow> bool"
  and wf_additive :: "additive \<Rightarrow> bool" where
  "wf_primary (Literal ip fp) = wf_literal ip fp"
| "wf_primary (Group e) = wf_additive e"
| "wf_multiplicative (Primary p) = wf_primary p"
| "wf_multiplicative (Times m p) = (wf_multiplicative m \<and> wf_primary p)"
| "wf_multiplicative (Over m p) = (wf_multiplicative m \<and> wf_primary p)"
| "wf_additive (Multiplicative m) = wf_multiplicative m"
| "wf_additive (Plus e m) = (wf_additive e \<and> wf_multiplicative m)"
| "wf_additive (Minus e m) = (wf_additive e \<and> wf_multiplicative m)"

text \<open>The expression as a string without blanks.\<close>

primrec text_primary :: "primary \<Rightarrow> string"
  and text_multiplicative :: "multiplicative \<Rightarrow> string"
  and text_additive :: "additive \<Rightarrow> string" where
  "text_primary (Literal ip fp) = literal_text ip fp"
| "text_primary (Group e) = ''('' @ text_additive e @ '')''"
| "text_multiplicative (Primary p) = text_primary p"
| "text_multiplicative (Times m p) = text_multiplicative m @ ''*'' @ text_primary p"
| "text_multiplicative (Over m p) = text_multiplicative m @ ''/'' @ text_primary p"
| "text_additive (Multiplicative m) = text_multiplicative m"
| "text_additive (Plus e m) = text_additive e @ ''+'' @ text_multiplicative m"
| "text_additive (Minus e m) = text_additive e @ ''-'' @ text_multiplicative m"

text \<open>The value of an expression in exact arithmetic; \<open>None\<close> when some division has a
  right operand of value 0.\<close>

definition lift_binary :: "(rat \<Rightarrow> rat \<Rightarrow> rat option) \<Rightarrow> rat option \<Rightarrow> rat option \<Rightarrow> rat option" where
  "lift_binary f a b =
     (case a of None \<Rightarrow> None | Some x \<Rightarrow> (case b of None \<Rightarrow> None | Some y \<Rightarrow> f x y))"

primrec value_primary :: "primary \<Rightarrow> rat option"
  and value_multiplicative :: "multiplicative \<Rightarrow> rat option"
  and value_additive :: "additive \<Rightarrow> rat option" where
  "value_primary (Literal ip fp) = Some (literal_value ip fp)"
| "value_primary (Group e) = value_additive e"
| "value_multiplicative (Primary p) = value_primary p"
| "value_multiplicative (Times m p) =
     lift_binary (\<lambda>x y. Some (x * y)) (value_multiplicative m) (value_primary p)"
| "value_multiplicative (Over m p) =
     lift_binary (\<lambda>x y. if y = 0 then None else Some (x / y)) (value_multiplicative m) (value_primary p)"
| "value_additive (Multiplicative m) = value_multiplicative m"
| "value_additive (Plus e m) =
     lift_binary (\<lambda>x y. Some (x + y)) (value_additive e) (value_multiplicative m)"
| "value_additive (Minus e m) =
     lift_binary (\<lambda>x y. Some (x - y)) (value_additive e) (value_multiplicative m)"

text \<open>
  An expression is exact when each of its numbers and the value of each of its
  subexpressions is a float64 number: then no step of a float64 computation of its value
  rounds.
\<close>

definition representable_result :: "rat option \<Rightarrow> bool" where
  "representable_result r = (case r of None \<Rightarrow> True | Some v \<Rightarrow> representable v)"

primrec exact_primary :: "primary \<Rightarrow> bool"
  and exact_multiplicative :: "multiplicative \<Rightarrow> bool"
  and exact_additive :: "additive \<Rightarrow> bool" where
  "exact_primary (Literal ip fp) = representable (literal_value ip fp)"
| "exact_primary (Group e) = exact_additive e"
| "exact_multiplicative (Primary p) = exact_primary p"
| "exact_multiplicative (Times m p) =
     (exact_multiplicative m \<and> exact_primary p
      \<and> representable_result (value_multiplicative (Times m p)))"
| "exact_multiplicative (Over m p) =
     (exact_multiplicative m \<and> exact_primary p
      \<and> representable_result (value_multiplicative (Over m p)))"
| "exact_additive (Multiplicative m) = exact_multiplicative m"
| "exact_additive (Plus e m) =
     (exact_additive e \<and> exact_multiplicative m
      \<and> representable_result (value_additive (Plus e m)))"
| "exact_additive (Minus e m) =
     (exact_additive e \<and> exact_multiplicative m
      \<and> representable_result (value_additive (Minus e m)))"

text \<open>The tree of an expression: each operator applied to the trees of its two operands,
  no node for a pair of parentheses, each number as the float64 number nearest to it.\<close>

primrec tree_primary :: "primary \<Rightarrow> ASTNode"
  and tree_multiplicative :: "multiplicative \<Rightarrow> ASTNode"
  and tree_additive :: "additive \<Rightarrow> ASTNode" where
  "tree_primary (Literal ip fp) = NumberNode (round_float64 (literal_value ip fp))"
| "tree_primary (Group e) = tree_additive e"
| "tree_multiplicative (Primary p) = tree_primary p"
| "tree_multiplicative (Times m p) =
     BinaryOperationNode (tree_multiplicative m) (tree_primary p) ''*''"
| "tree_multiplicative (Over m p) =
     BinaryOperationNode (tree_multiplicative m) (tree_primary p) ''/''"
| "tree_additive (Multiplicative m) = tree_multiplicative m"
| "tree_additive (Plus e m) = BinaryOperationNode (tree_additive e) (tree_multiplicative m) ''+''"
| "tree_additive (Minus e m) = BinaryOperationNode (tree_additive e) (tree_multiplicative m) ''-''"

subsection \<open>Intermediate forms of an expression\<close>

text \<open>The tokens of an expression, and its postfix form.\<close>

primrec tokens_primary :: "primary \<Rightarrow> token list"
  and tokens_multiplicative :: "multiplicative \<Rightarrow> token list"
  and tokens_additive :: "additive \<Rightarrow> token list" where
  "tokens_primary (Literal ip fp) = [NumberToken (round_float64 (literal_value ip fp))]"
| "tokens_primary (Group e) = StringToken ''('' # tokens_additive e @ [StringToken '')'']"
| "tokens_multiplicative (Primary p) = tokens_primary p"
| "tokens_multiplicative (Times m p) =
     tokens_multiplicative m @ StringToken ''*'' # tokens_primary p"
| "tokens_multiplicative (Over m p) =
     tokens_multiplicative m @ StringToken ''/'' # tokens_primary p"
| "tokens_additive (Multiplicative m) = tokens_multiplicative m"
| "tokens_additive (Plus e m) = tokens_additive e @ StringToken ''+'' # tokens_multiplicative m"
| "tokens_additive (Minus e m) = tokens_additive e @ StringToken ''-'' # tokens_multiplicative m"

primrec postfix_primary :: "primary \<Rightarrow> token list"
  and postfix_multiplicative :: "multiplicative \<Rightarrow> token list"
  and postfix_additive :: "additive \<Rightarrow> token list" where
  "postfix_primary (Literal ip fp) = [NumberToken (round_float64 (literal_value ip fp))]"
| "postfix_primary (Group e) = postfix_additive e"
| "postfix_multiplicative (Primary p) = postfix_primary p"
| "postfix_multiplicative (Times m p) =
     postfix_multiplicative m @ postfix_primary p @ [StringToken ''*'']"
| "postfix_multiplicative (Over m p) =
     postfix_multiplicative m @ postfix_primary p @ [StringToken ''/'']"
| "postfix_additive (Multiplicative m) = postfix_multiplicative m"
| "postfix_additive (Plus e m) =
     postfix_additive e @ postfix_multiplicative m @ [StringToken ''+'']"
| "postfix_additive (Minus e m) =
     postfix_additive e @ postfix_multiplicative m @ [StringToken ''-'']"

text \<open>
  When the Shunting-Yard loop has read an expression, the last operator of each open
  level is still on the operator stack (\<open>pending\<close>, top first); the rest of the postfix
  form is in the output queue (\<open>emitted\<close>).
\<close>

primrec pending_multiplicative :: "multiplicative \<Rightarrow> string list" where
  "pending_multiplicative (Primary p) = []"
| "pending_multiplicative (Times m p) = [''*'']"
| "pending_multiplicative (Over m p) = [''/'']"

primrec pending_additive :: "additive \<Rightarrow> string list" where
  "pending_additive (Multiplicative m) = pending_multiplicative m"
| "pending_additive (Plus e m) = pending_multiplicative m @ [''+'']"
| "pending_additive (Minus e m) = pending_multiplicative m @ [''-'']"

primrec emitted_multiplicative :: "multiplicative \<Rightarrow> token list" where
  "emitted_multiplicative (Primary p) = postfix_primary p"
| "emitted_multiplicative (Times m p) = postfix_multiplicative m @ postfix_primary p"
| "emitted_multiplicative (Over m p) = postfix_multiplicative m @ postfix_primary p"

primrec emitted_additive :: "additive \<Rightarrow> token list" where
  "emitted_additive (Multiplicative m) = emitted_multiplicative m"
| "emitted_additive (Plus e m) = postfix_additive e @ emitted_multiplicative m"
| "emitted_additive (Minus e m) = postfix_additive e @ emitted_multiplicative m"

text \<open>The operator stack at the start of an additive expression: empty, or with an open
  parenthesis on top. At the start of a multiplicative expression the top may also be
  \<open>+\<close> or \<open>-\<close>.\<close>

fun at_paren :: "string list \<Rightarrow> bool" where
  "at_paren [] = True"
| "at_paren (topOp # below) = (topOp = ''('')"

fun at_additive :: "string list \<Rightarrow> bool" where
  "at_additive [] = True"
| "at_additive (topOp # below) = (topOp = ''('' \<or> topOp = ''+'' \<or> topOp = ''-'')"

text \<open>The character after an expression is not one that would extend a number.\<close>

definition not_numeric_next :: "string \<Rightarrow> bool" where
  "not_numeric_next rest \<longleftrightarrow> rest = [] \<or> \<not> is_numeric (hd rest)"

text \<open>Operator stacks that hold \<open>+ - * /\<close> only.\<close>

definition arithmetic_operators :: "string list \<Rightarrow> bool" where
  "arithmetic_operators q \<longleftrightarrow> list_all (\<lambda>x. x \<in> set [''+'', ''-'', ''*'', ''/'']) q"

text \<open>The result \<open>evaluate\<close> should give for a value of the reference.\<close>

definition expected :: "rat option \<Rightarrow> error + jsvalue" where
  "expected r = (case r of None \<Rightarrow> Inl DivisionByZero | Some v \<Rightarrow> Inr (Number (Finite v)))"

section \<open>Serialization\<close>

text \<open>
  Claim C3. Round-trip law: for every tree \<open>t\<close> of \<open>NumberNode\<close> and
  \<open>BinaryOperationNode\<close>, \<open>deserialize (serialize t)\<close> succeeds with a tree that has the
  same \<open>evaluate\<close> result (value or error), the same \<open>print\<close> string and the same
  \<open>serialize\<close> output as \<open>t\<close>.
\<close>

theorem roundtrip_behaviour:
  "\<exists>t'. deserialize (serialize t) = Inr t' \<and> evaluate t' = evaluate t
     \<and> print other t' = print other t \<and> serialize t' = serialize t"
proof -
  have "deserialize (serialize t) = Inr t"
  proof (induction t)
    case (NumberNode v)
    show ?case by simp
  next
    case (BinaryOperationNode left right operator)
    then show ?case by simp
  qed
  then show ?thesis
    by simp
qed

section \<open>Printing\<close>

lemma parse_10_plus_5:
  "parse ''10 + 5'' =
     Inr (BinaryOperationNode (NumberNode (Finite 10)) (NumberNode (Finite 5)) ''+'')"
  by code_simp

lemma parse_10_plus_5_parens:
  "parse ''((10) + (5))'' =
     Inr (BinaryOperationNode (NumberNode (Finite 10)) (NumberNode (Finite 5)) ''+'')"
  by code_simp

lemma print_10_plus_5:
  "print other (BinaryOperationNode (NumberNode (Finite 10)) (NumberNode (Finite 5)) ''+'') =
     ''(10 + 5)''"
  by code_simp

text \<open>
  Claim C4. \<open>print\<close> of a \<open>BinaryOperationNode\<close> is exactly
  \<open>"(" + left.print() + " " + operator + " " + right.print() + ")"\<close>, and \<open>print\<close> of a
  \<open>NumberNode\<close> is the string form of its value (the decimal digits for an integer such
  as 42). The input's own parentheses leave no trace: \<open>parse("10 + 5")\<close> and
  \<open>parse("((10) + (5))")\<close> both print as \<open>"(10 + 5)"\<close>.
\<close>

theorem print_fully_parenthesized:
  "print other (BinaryOperationNode left right operator) =
     ''('' @ print other left @ '' '' @ operator @ '' '' @ print other right @ '')''
   \<and> print other (NumberNode v) = number_toString other v
   \<and> number_toString other (Finite 42) = ''42''
   \<and> (\<exists>t. parse ''10 + 5'' = Inr t \<and> print other t = ''(10 + 5)'')
   \<and> (\<exists>t. parse ''((10) + (5))'' = Inr t \<and> print other t = ''(10 + 5)'')"
proof -
  have "number_toString other (Finite 42) = ''42''"
    by code_simp
  then show ?thesis
    by (simp add: parse_10_plus_5 parse_10_plus_5_parens print_10_plus_5 del: print.simps(2))
       simp
qed

section \<open>The tree builder\<close>

lemma build_append:
  "build (xs @ ys) astStack =
     (case build xs astStack of Inl e \<Rightarrow> Inl e | Inr astStack' \<Rightarrow> build ys astStack')"
proof (induction xs astStack rule: build.induct)
  case (1 astStack)
  show ?case by simp
next
  case (2 n tokens astStack)
  then show ?case by simp
next
  case (3 tk tokens astStack)
  then show ?case by (simp split: list.splits)
qed

lemma build_operator_short:
  "length astStack < 2 \<Longrightarrow> build (StringToken tk # tokens) astStack = Inl InsufficientOperands"
  by (cases astStack) (simp_all split: list.splits)

text \<open>
  Claim C6. When the tree builder reaches an operator token with fewer than two nodes on
  its stack, it fails with \<open>InsufficientOperands\<close>; with two or more, the first node
  popped is the right operand and the second the left one. When all tokens are consumed
  and the stack does not hold exactly one node, it fails with \<open>InvalidExpression\<close>.
  \<open>parse("")\<close>, \<open>parse("   ")\<close>, \<open>parse("()")\<close> and \<open>parse("(   )")\<close> fail with
  \<open>InvalidExpression\<close>.
\<close>

theorem tree_builder_errors:
  "(build before [] = Inr astStack \<and> length astStack < 2 \<longrightarrow>
      rpn_to_ast (before @ StringToken tk # after) = Inl InsufficientOperands)
   \<and> build (StringToken tk # after) (right # left # below) =
       build after (BinaryOperationNode left right tk # below)
   \<and> (build rpn [] = Inr finalStack \<and> length finalStack \<noteq> 1 \<longrightarrow>
        rpn_to_ast rpn = Inl InvalidExpression)
   \<and> parse '''' = Inl InvalidExpression
   \<and> parse ''   '' = Inl InvalidExpression
   \<and> parse ''()'' = Inl InvalidExpression
   \<and> parse ''(   )'' = Inl InvalidExpression"
proof -
  have a: "build before [] = Inr astStack \<and> length astStack < 2 \<longrightarrow>
      rpn_to_ast (before @ StringToken tk # after) = Inl InsufficientOperands"
    by (simp add: rpn_to_ast_def build_append build_operator_short del: build.simps(3))
  have b: "build rpn [] = Inr finalStack \<and> length finalStack \<noteq> 1 \<longrightarrow>
      rpn_to_ast rpn = Inl InvalidExpression"
    by (simp add: rpn_to_ast_def)
  have c: "parse '''' = Inl InvalidExpression" by code_simp
  have d: "parse ''   '' = Inl InvalidExpression" by code_simp
  have e: "parse ''()'' = Inl InvalidExpression" by code_simp
  have f: "parse ''(   )'' = Inl InvalidExpression" by code_simp
  show ?thesis using a b c d e f by simp
qed

theorem tree_builder_errors_witness:
  "rpn_to_ast ([NumberToken (Finite 1)] @ StringToken ''+'' # [NumberToken (Finite 2)]) =
     Inl InsufficientOperands
   \<and> rpn_to_ast [NumberToken (Finite 1), NumberToken (Finite 2)] = Inl InvalidExpression"
proof -
  have "build [NumberToken (Finite 1)] [] = Inr [NumberNode (Finite 1)]
      \<and> length [NumberNode (Finite 1)] < 2"
    by simp
  moreover have "build [NumberToken (Finite 1), NumberToken (Finite 2)] [] =
        Inr [NumberNode (Finite 2), NumberNode (Finite 1)]
      \<and> length [NumberNode (Finite 2), NumberNode (Finite 1)] \<noteq> 1"
    by simp
  ultimately show ?thesis
    using tree_builder_errors [of "[NumberToken (Finite 1)]" "[NumberNode (Finite 1)]" "''+''"
        "[NumberToken (Finite 2)]" _ _ _ "[NumberToken (Finite 1), NumberToken (Finite 2)]"
        "[NumberNode (Finite 2), NumberNode (Finite 1)]"]
    by blast
qed

section \<open>Numbers in the input\<close>

lemma strip_whitespace_idem: "strip_whitespace (strip_whitespace expr) = strip_whitespace expr"
  by (simp add: strip_whitespace_def)

lemma parse_strip: "parse expr = parse (strip_whitespace expr)"
  by (simp add: parse_def strip_whitespace_idem)

lemma isValid_loop_no_paren:
  "\<forall>c \<in> set s. c \<noteq> CHR ''('' \<and> c \<noteq> CHR '')'' \<Longrightarrow> isValid_loop s stack = (stack = [])"
  by (induction s arbitrary: stack) (simp_all add: closeToOpen_def)

lemma takeWhile_run:
  "\<forall>c \<in> set run. P c \<Longrightarrow> rest = [] \<or> \<not> P (hd rest) \<Longrightarrow> takeWhile P (run @ rest) = run"
  by (cases rest) (simp_all add: takeWhile_append2)

lemma dropWhile_run:
  "\<forall>c \<in> set run. P c \<Longrightarrow> rest = [] \<or> \<not> P (hd rest) \<Longrightarrow> dropWhile P (run @ rest) = rest"
  by (cases rest) (simp_all add: dropWhile_append2)

lemma tokenize_loop_run:
  assumes "run \<noteq> []" and "\<forall>c \<in> set run. is_numeric c"
    and "rest = [] \<or> \<not> is_numeric (hd rest)"
  shows "tokenize_loop i (run @ rest) res =
           tokenize_loop (i + length run) rest (res @ [NumberToken (parseFloat run)])"
proof -
  obtain c cs where run: "run = c # cs"
    using assms(1) by (cases run) auto
  have cs: "\<forall>x \<in> set cs. is_numeric x" and c: "is_numeric c"
    using assms(2) run by auto
  have "takeWhile is_numeric (cs @ rest) = cs" "dropWhile is_numeric (cs @ rest) = rest"
    using cs assms(3) by (rule takeWhile_run, rule dropWhile_run)
  then show ?thesis
    using c by (simp add: run)
qed

lemma parseFloat_dots: "0 < n \<Longrightarrow> parseFloat (replicate n CHR ''.'') = NaN"
proof -
  assume "0 < n"
  then obtain m where n: "n = Suc m"
    by (cases n) auto
  have "takeWhile is_digit (replicate m CHR ''.'') = []"
    by (cases m) (simp_all add: is_digit_def)
  then show ?thesis
    by (simp add: n parseFloat_def is_digit_def)
qed

lemma numeric_not_whitespace: "is_numeric c \<Longrightarrow> \<not> is_whitespace c"
  by (auto simp: is_numeric_def is_whitespace_def)

lemma numeric_not_paren: "is_numeric c \<Longrightarrow> c \<noteq> CHR ''('' \<and> c \<noteq> CHR '')''"
  by (auto simp: is_numeric_def)

lemma parse_single_run:
  assumes "run \<noteq> []" and "\<forall>c \<in> set run. is_numeric c"
  shows "parse run = Inr (NumberNode (parseFloat run))"
proof -
  have ws: "strip_whitespace run = run"
    unfolding strip_whitespace_def using assms(2)
    by (simp add: numeric_not_whitespace)
  have "\<forall>c \<in> set run. c \<noteq> CHR ''('' \<and> c \<noteq> CHR '')''"
    using assms(2) numeric_not_paren by blast
  then have valid: "isValid run"
    by (simp add: isValid_def isValid_loop_no_paren)
  have "tokenize_loop 0 (run @ []) [] =
      tokenize_loop (0 + length run) [] ([] @ [NumberToken (parseFloat run)])"
    using assms by (intro tokenize_loop_run) auto
  then have tok: "tokenize run = Inr [NumberToken (parseFloat run)]"
    by (simp add: tokenize_def)
  show ?thesis
    by (simp add: parse_def ws valid tok infix_to_rpn_def rpn_to_ast_def)
qed

text \<open>
  Claim C10. A run of \<open>[0-9.]\<close> characters without a digit is accepted as a number
  token: when the input without its blanks is one or more points, \<open>parse\<close> raises no
  error and returns a \<open>NumberNode\<close> whose value is \<open>NaN\<close>.
\<close>

theorem dots_parse_to_NaN:
  "0 < n \<Longrightarrow> strip_whitespace expr = replicate n CHR ''.'' \<Longrightarrow> parse expr = Inr (NumberNode NaN)"
proof -
  assume n: "0 < n" and s: "strip_whitespace expr = replicate n CHR ''.''"
  have "parse (replicate n CHR ''.'') = Inr (NumberNode (parseFloat (replicate n CHR ''.'')))"
    using n by (intro parse_single_run) (auto simp: is_numeric_def)
  then show ?thesis
    using n by (subst parse_strip) (simp add: s parseFloat_dots)
qed

theorem dots_parse_to_NaN_witness:
  "parse '' . '' = Inr (NumberNode NaN) \<and> parse ''.. .'' = Inr (NumberNode NaN)"
proof -
  have a: "strip_whitespace '' . '' = replicate 1 CHR ''.''"
    by code_simp
  have b: "strip_whitespace ''.. .'' = replicate 3 CHR ''.''"
    by code_simp
  show ?thesis
    using dots_parse_to_NaN [OF _ a] dots_parse_to_NaN [OF _ b] by simp
qed






section \<open>Division\<close>

lemma strict_equal_zero: "strict_equal v (Number (Finite 0)) \<longleftrightarrow> v = Number (Finite 0)"
  by (cases v) auto

lemma evaluate_division:
  assumes "evaluate left = Inr leftVal" and "evaluate right = Inr rightVal"
  shows "evaluate (BinaryOperationNode left right ''/'') =
           (if rightVal = Number (Finite 0) then Inl DivisionByZero
            else Inr (Number (number_div (ToNumber leftVal) (ToNumber rightVal))))"
  using assms by (simp add: apply_operator_def strict_equal_zero)

lemma division_by_zero_sources:
  "evaluate (BinaryOperationNode left right ''/'') = Inl DivisionByZero \<longleftrightarrow>
     evaluate left = Inl DivisionByZero
     \<or> ((\<exists>v. evaluate left = Inr v)
         \<and> (evaluate right = Inl DivisionByZero \<or> evaluate right = Inr (Number (Finite 0))))"
  by (cases "evaluate left"; cases "evaluate right")
     (auto simp: apply_operator_def strict_equal_zero)

lemma evaluate_10_div_0: "parse_and_evaluate ''10 / 0'' = Inl DivisionByZero"
  by code_simp

text \<open>
  Claim C5. For a \<open>BinaryOperationNode\<close> with operator \<open>/\<close> whose operands evaluate to
  \<open>leftVal\<close> and \<open>rightVal\<close>: \<open>evaluate\<close> fails with \<open>DivisionByZero\<close> exactly when
  \<open>rightVal\<close> is the number 0, and then no quotient is returned; otherwise it returns
  the quotient. In all, such a node fails with \<open>DivisionByZero\<close> exactly when its right
  operand evaluates to the number 0 or the evaluation of an operand has already failed
  so. \<open>parse("10 / 0").evaluate()\<close> fails with \<open>DivisionByZero\<close>.
\<close>

theorem division_by_zero_guard:
  "(evaluate left = Inr leftVal \<and> evaluate right = Inr rightVal \<longrightarrow>
      (evaluate (BinaryOperationNode left right ''/'') = Inl DivisionByZero
         \<longleftrightarrow> rightVal = Number (Finite 0))
      \<and> (rightVal \<noteq> Number (Finite 0) \<longrightarrow>
           evaluate (BinaryOperationNode left right ''/'') =
             Inr (Number (number_div (ToNumber leftVal) (ToNumber rightVal)))))
   \<and> (evaluate (BinaryOperationNode left right ''/'') = Inl DivisionByZero \<longleftrightarrow>
        evaluate left = Inl DivisionByZero
        \<or> ((\<exists>v. evaluate left = Inr v)
            \<and> (evaluate right = Inl DivisionByZero \<or> evaluate right = Inr (Number (Finite 0)))))
   \<and> parse_and_evaluate ''10 / 0'' = Inl DivisionByZero"
  using evaluate_division [of left leftVal right rightVal] evaluate_10_div_0
    division_by_zero_sources [of left right]
  by auto

theorem division_by_zero_guard_witness:
  "evaluate (BinaryOperationNode (NumberNode (Finite 10)) (NumberNode (Finite 0)) ''/'') =
     Inl DivisionByZero
   \<and> evaluate (BinaryOperationNode (NumberNode (Finite 10)) (NumberNode (Finite 5)) ''/'') =
     Inr (Number (number_div (ToNumber (Number (Finite 10))) (ToNumber (Number (Finite 5)))))
   \<and> evaluate (BinaryOperationNode (NumberNode (Finite 10)) (NumberNode (Finite 5)) ''/'') \<noteq>
     Inl DivisionByZero"
proof -
  have a: "evaluate (NumberNode (Finite 10)) = Inr (Number (Finite 10))
      \<and> evaluate (NumberNode (Finite 0)) = Inr (Number (Finite 0))"
    by simp
  have b: "evaluate (NumberNode (Finite 10)) = Inr (Number (Finite 10))
      \<and> evaluate (NumberNode (Finite 5)) = Inr (Number (Finite 5))"
    by simp
  have c: "Number (Finite 5) \<noteq> Number (Finite 0)"
    by simp
  show ?thesis
    using a b c
      division_by_zero_guard [of "NumberNode (Finite 10)" "Number (Finite 10)"
        "NumberNode (Finite 0)" "Number (Finite 0)"]
      division_by_zero_guard [of "NumberNode (Finite 10)" "Number (Finite 10)"
        "NumberNode (Finite 5)" "Number (Finite 5)"]
    by blast
qed

lemma evaluate_division_by_false:
  assumes "evaluate left = Inr leftVal" and "evaluate right = Inr (Boolean False)"
  shows "evaluate (BinaryOperationNode left right ''/'') =
           Inr (Number (number_div (ToNumber leftVal) (Finite 0)))"
  using assms by (simp add: apply_operator_def)

lemma number_div_zero:
  "number_div a (Finite 0) =
     (if a = NaN \<or> is_zero a then NaN else signed_infinity (is_negative a))"
  by (cases a) (simp_all add: number_div_def)

lemma evaluate_1_div_false: "parse_and_evaluate ''1 / (2 = 3)'' = Inr (Number PosInfinity)"
  by code_simp

text \<open>
  The right operand of \<open>(0 - 1) / (2 = 3)\<close> evaluates to \<open>false\<close> and the numerator to
  \<open>-1\<close>, which is not zero; the result is \<open>-Infinity\<close>, not \<open>Infinity\<close>.
\<close>

theorem division_by_false_negative_numerator:
  "parse ''(0 - 1) / (2 = 3)'' =
     Inr (BinaryOperationNode
           (BinaryOperationNode (NumberNode (Finite 0)) (NumberNode (Finite 1)) ''-'')
           (BinaryOperationNode (NumberNode (Finite 2)) (NumberNode (Finite 3)) ''='') ''/'')
   \<and> evaluate (BinaryOperationNode (NumberNode (Finite 2)) (NumberNode (Finite 3)) ''='') =
       Inr (Boolean False)
   \<and> evaluate (BinaryOperationNode (NumberNode (Finite 0)) (NumberNode (Finite 1)) ''-'') =
       Inr (Number (Finite (- 1)))
   \<and> parse_and_evaluate ''(0 - 1) / (2 = 3)'' = Inr (Number NegInfinity)
   \<and> parse_and_evaluate ''(0 - 1) / (2 = 3)'' \<noteq> Inr (Number PosInfinity)"
proof -
  have a: "parse ''(0 - 1) / (2 = 3)'' =
     Inr (BinaryOperationNode
           (BinaryOperationNode (NumberNode (Finite 0)) (NumberNode (Finite 1)) ''-'')
           (BinaryOperationNode (NumberNode (Finite 2)) (NumberNode (Finite 3)) ''='') ''/'')"
    by code_simp
  have b: "evaluate (BinaryOperationNode (NumberNode (Finite 2)) (NumberNode (Finite 3)) ''='') =
       Inr (Boolean False)"
    by code_simp
  have c: "evaluate (BinaryOperationNode (NumberNode (Finite 0)) (NumberNode (Finite 1)) ''-'') =
       Inr (Number (Finite (- 1)))"
    by code_simp
  have d: "parse_and_evaluate ''(0 - 1) / (2 = 3)'' = Inr (Number NegInfinity)"
    by code_simp
  show ?thesis
    using a b c d by simp
qed

text \<open>
  Claim C9, amended. The guard of \<open>/\<close> compares with the number 0 by strict equality.
  When the left operand evaluates to \<open>leftVal\<close> and the right operand to the boolean
  \<open>false\<close>, \<open>evaluate\<close> raises no \<open>DivisionByZero\<close>: it returns the quotient of the
  coerced operands, which is \<open>Infinity\<close> for a positive numerator, \<open>-Infinity\<close> for a
  negative one, and \<open>NaN\<close> when the numerator is 0 or \<open>NaN\<close>.
  \<open>parse("1 / (2 = 3)").evaluate()\<close> is \<open>Infinity\<close>.
\<close>

theorem division_by_false:
  "(evaluate left = Inr leftVal \<and> evaluate right = Inr (Boolean False) \<longrightarrow>
      evaluate (BinaryOperationNode left right ''/'') =
        Inr (Number (number_div (ToNumber leftVal) (Finite 0)))
      \<and> evaluate (BinaryOperationNode left right ''/'') \<noteq> Inl DivisionByZero
      \<and> number_div (ToNumber leftVal) (Finite 0) =
          (if ToNumber leftVal = NaN \<or> is_zero (ToNumber leftVal) then NaN
           else if is_negative (ToNumber leftVal) then NegInfinity else PosInfinity))
   \<and> parse_and_evaluate ''1 / (2 = 3)'' = Inr (Number PosInfinity)"
  using evaluate_division_by_false [of left leftVal right] number_div_zero [of "ToNumber leftVal"]
    evaluate_1_div_false
  by (simp add: signed_infinity_def)

theorem division_by_false_witness:
  "evaluate (BinaryOperationNode (NumberNode (Finite 1))
      (BinaryOperationNode (NumberNode (Finite 2)) (NumberNode (Finite 3)) ''='') ''/'') =
     Inr (Number PosInfinity)
   \<and> evaluate (BinaryOperationNode (NumberNode (Finite (- 1)))
      (BinaryOperationNode (NumberNode (Finite 2)) (NumberNode (Finite 3)) ''='') ''/'') =
     Inr (Number NegInfinity)
   \<and> evaluate (BinaryOperationNode (NumberNode (Finite 0))
      (BinaryOperationNode (NumberNode (Finite 2)) (NumberNode (Finite 3)) ''='') ''/'') =
     Inr (Number NaN)"
proof -
  let ?false = "BinaryOperationNode (NumberNode (Finite 2)) (NumberNode (Finite 3)) ''=''"
  have f: "evaluate ?false = Inr (Boolean False)"
    by code_simp
  have a: "evaluate (NumberNode (Finite 1)) = Inr (Number (Finite 1))"
    "evaluate (NumberNode (Finite (- 1))) = Inr (Number (Finite (- 1)))"
    "evaluate (NumberNode (Finite 0)) = Inr (Number (Finite 0))"
    by simp_all
  show ?thesis
    using f a
      division_by_false [of "NumberNode (Finite 1)" "Number (Finite 1)" ?false]
      division_by_false [of "NumberNode (Finite (- 1))" "Number (Finite (- 1))" ?false]
      division_by_false [of "NumberNode (Finite 0)" "Number (Finite 0)" ?false]
    by simp
qed

section \<open>Operator precedence\<close>

lemma parse_1_plus_2_less_3:
  "parse ''1 + 2 < 3'' =
     Inr (BinaryOperationNode (NumberNode (Finite 1))
           (BinaryOperationNode (NumberNode (Finite 2)) (NumberNode (Finite 3)) ''<'') ''+'')"
  by code_simp

lemma evaluate_1_plus_2_less_3: "parse_and_evaluate ''1 + 2 < 3'' = Inr (Number (Finite 2))"
  by code_simp

text \<open>
  Claim C1. In the program \<open>precedence\<close> gives 1 to \<open>+\<close> and \<open>-\<close> and 2 to every other
  string, so to \<open><\<close>, \<open>>\<close> and \<open>=\<close> as well as to \<open>*\<close> and \<open>/\<close>. An incoming \<open><\<close>
  therefore leaves a pending \<open>+\<close> on the operator stack, while an incoming \<open>+\<close> pops a
  pending \<open><\<close>. \<open>parse("1 + 2 < 3")\<close> is the tree of \<open>1 + (2 < 3)\<close> and evaluates to 2.
\<close>

theorem comparison_precedence_in_code:
  "precedence ''<'' = 2 \<and> precedence ''>'' = 2 \<and> precedence ''='' = 2
   \<and> precedence ''*'' = 2 \<and> precedence ''/'' = 2
   \<and> precedence ''+'' = 1 \<and> precedence ''-'' = 1
   \<and> pop_operators ''<'' outputQueue (''+'' # opStack) = Inr (outputQueue, ''+'' # opStack)
   \<and> pop_operators ''+'' outputQueue (''<'' # opStack) =
       pop_operators ''+'' (outputQueue @ [StringToken ''<'']) opStack
   \<and> parse ''1 + 2 < 3'' =
       Inr (BinaryOperationNode (NumberNode (Finite 1))
             (BinaryOperationNode (NumberNode (Finite 2)) (NumberNode (Finite 3)) ''<'') ''+'')
   \<and> parse_and_evaluate ''1 + 2 < 3'' = Inr (Number (Finite 2))"
  using parse_1_plus_2_less_3 evaluate_1_plus_2_less_3
  by (simp add: precedence_def isVaildOp_def)

section \<open>The parenthesis check\<close>

lemma tokenize_loop_error:
  "tokenize_loop i s res = Inl e \<Longrightarrow> \<exists>c j. e = UnexpectedToken c j"
proof (induction i s res rule: tokenize_loop.induct)
  case (1 i res)
  then show ?case by simp
next
  case (2 i c cs res)
  then show ?case by (auto split: if_splits)
qed

lemma pop_operators_error:
  "pop_operators tk outputQueue opStack = Inl e \<Longrightarrow> e = InvalidOperatorStack"
  by (induction tk outputQueue opStack rule: pop_operators.induct) (auto split: if_splits)

lemma pop_until_paren_error:
  "pop_until_paren outputQueue opStack = Inl e \<Longrightarrow> e = InvalidOperatorStack"
  by (induction outputQueue opStack rule: pop_until_paren.induct) (auto split: if_splits)

lemma shunting_yard_error:
  "shunting_yard tokens outputQueue opStack = Inl e \<Longrightarrow> e = InvalidOperatorStack"
proof (induction tokens outputQueue opStack rule: shunting_yard.induct)
  case (1 outputQueue opStack)
  then show ?case by simp
next
  case (2 n tokens outputQueue opStack)
  then show ?case by simp
next
  case (3 tk tokens outputQueue opStack)
  then show ?case
    by (auto split: if_splits sum.splits prod.splits
        dest: pop_operators_error pop_until_paren_error)
qed

lemma drain_error: "drain outputQueue opStack = Inl e \<Longrightarrow> e = InvalidOperatorStack"
  by (induction outputQueue opStack rule: drain.induct) (auto split: if_splits)

lemma build_error: "build tokens astStack = Inl e \<Longrightarrow> e = InsufficientOperands"
  by (induction tokens astStack rule: build.induct) (auto split: list.splits)

lemma parse_InvalidParentheses_iff:
  "parse expr = Inl InvalidParentheses \<longleftrightarrow> \<not> isValid (strip_whitespace expr)"
proof (cases "isValid (strip_whitespace expr)")
  case False
  then show ?thesis by (simp add: parse_def)
next
  case True
  have "parse expr \<noteq> Inl InvalidParentheses"
  proof
    assume p: "parse expr = Inl InvalidParentheses"
    show False
    proof (cases "tokenize (strip_whitespace expr)")
      case (Inl e)
      with p True have "e = InvalidParentheses" by (simp add: parse_def)
      with Inl tokenize_loop_error show False by (fastforce simp: tokenize_def)
    next
      case tok: (Inr tokens)
      show False
      proof (cases "infix_to_rpn tokens")
        case (Inl e)
        with p True tok have e: "e = InvalidParentheses" by (simp add: parse_def)
        from Inl have "e = InvalidOperatorStack"
          by (auto simp: infix_to_rpn_def split: sum.splits prod.splits
              dest: shunting_yard_error drain_error)
        with e show False by simp
      next
        case rpn: (Inr rpn)
        with p True tok have "rpn_to_ast rpn = Inl InvalidParentheses"
          by (simp add: parse_def)
        then show False
          by (auto simp: rpn_to_ast_def split: sum.splits if_splits dest: build_error)
      qed
    qed
  qed
  with True show ?thesis by simp
qed

lemma all_le_Suc_split: "(\<forall>n\<le>Suc k. P n) \<longleftrightarrow> P 0 \<and> (\<forall>n\<le>k. P (Suc n))"
proof
  assume a: "\<forall>n\<le>Suc k. P n"
  then show "P 0 \<and> (\<forall>n\<le>k. P (Suc n))" by auto
next
  assume a: "P 0 \<and> (\<forall>n\<le>k. P (Suc n))"
  show "\<forall>n\<le>Suc k. P n"
  proof (intro allI impI)
    fix n assume "n \<le> Suc k"
    then show "P n" using a by (cases n) auto
  qed
qed

lemma isValid_loop_balance:
  assumes "\<forall>x \<in> set stack. x = ''(''"
  shows "isValid_loop s stack \<longleftrightarrow>
     (\<forall>n\<le>length s. count_list (take n s) CHR '')'' \<le> length stack + count_list (take n s) CHR ''('')
     \<and> length stack + count_list s CHR ''('' = count_list s CHR '')''"
  using assms
proof (induction s arbitrary: stack)
  case Nil
  then show ?case by auto
next
  case (Cons c cs)
  show ?case
  proof (cases "c = CHR ''(''")
    case True
    have "\<forall>x \<in> set ([c] # stack). x = ''(''"
      using Cons.prems True by simp
    from Cons.IH [OF this] show ?thesis
      using True by (simp add: all_le_Suc_split)
  next
    case notopen: False
    show ?thesis
    proof (cases "c = CHR '')''")
      case True
      show ?thesis
      proof (cases stack)
        case Nil
        have "\<not> (\<forall>n\<le>Suc (length cs). count_list (take n (c # cs)) CHR '')''
                \<le> length stack + count_list (take n (c # cs)) CHR ''('')"
          using True Nil by (auto simp: all_le_Suc_split intro: exI [of _ 0])
        then show ?thesis
          using True Nil by (simp add: closeToOpen_def)
      next
        case (Cons t below)
        have t: "t = ''(''" and below: "\<forall>x \<in> set below. x = ''(''"
          using Cons.prems Cons by simp_all
        from Cons.IH [OF below] show ?thesis
          using True Cons t by (simp add: all_le_Suc_split closeToOpen_def)
      qed
    next
      case False
      from Cons.IH [OF Cons.prems] show ?thesis
        using notopen False by (simp add: all_le_Suc_split closeToOpen_def)
    qed
  qed
qed

lemma isValid_loop_filter:
  "isValid_loop (filter (\<lambda>c. c = CHR ''('' \<or> c = CHR '')'') s) stack = isValid_loop s stack"
  by (induction s arbitrary: stack) (auto simp: closeToOpen_def split: list.splits)

lemma parse_unclosed: "parse ''(1 + 2'' = Inl InvalidParentheses"
  by code_simp

lemma parse_unclosed_bad_token: "parse ''(1 + $'' = Inl InvalidParentheses"
  by code_simp

text \<open>
  Claim C8. The result of \<open>parse\<close> depends on the input without its blanks only, and
  \<open>parse\<close> fails with \<open>InvalidParentheses\<close> if and only if \<open>isValid\<close> is false on the
  input without its blanks, whatever the tokenizer would say of it. \<open>isValid\<close> is
  true exactly when no prefix of the string has more \<open>)\<close> than \<open>(\<close> and the whole string
  has as many of each; characters other than \<open>(\<close> and \<open>)\<close> do not matter.
  \<open>parse("(1 + 2")\<close> fails with \<open>InvalidParentheses\<close>.
\<close>

theorem parentheses_checked_first:
  "parse expr = parse (strip_whitespace expr)
   \<and> (parse expr = Inl InvalidParentheses \<longleftrightarrow> \<not> isValid (strip_whitespace expr))
   \<and> (isValid s \<longleftrightarrow>
        (\<forall>n\<le>length s. count_list (take n s) CHR '')'' \<le> count_list (take n s) CHR ''('')
        \<and> count_list s CHR ''('' = count_list s CHR '')'')
   \<and> isValid (filter (\<lambda>c. c = CHR ''('' \<or> c = CHR '')'') s) = isValid s
   \<and> parse ''(1 + 2'' = Inl InvalidParentheses
   \<and> parse ''(1 + $'' = Inl InvalidParentheses"
  using parse_InvalidParentheses_iff [of expr] isValid_loop_balance [of "[]" s]
    isValid_loop_filter [of s "[]"] parse_unclosed parse_unclosed_bad_token
    parse_strip [of expr]
  by (simp add: isValid_def)

theorem parentheses_checked_first_witness:
  "isValid ''(1)'' \<and> \<not> isValid '')('' \<and> \<not> isValid ''(()''
   \<and> (\<exists>n\<le>length '')(''. \<not> count_list (take n '')('') CHR '')'' \<le> count_list (take n '')('') CHR ''('')"
proof -
  have a: "isValid ''(1)''" by code_simp
  have b: "\<not> isValid '')(''" by code_simp
  have c: "\<not> isValid ''(()''" by code_simp
  have "count_list '')('' CHR ''('' = count_list '')('' CHR '')''" by code_simp
  with b parentheses_checked_first [of _ "'')(''"] show ?thesis
    using a c by blast
qed

section \<open>Arithmetic expressions\<close>

subsection \<open>Number literals\<close>

lemma digit_numeric: "is_digit c \<Longrightarrow> is_numeric c"
  by (auto simp: is_digit_def is_numeric_def)

lemma point_not_digit: "\<not> is_digit CHR ''.''"
  by (simp add: is_digit_def)

lemma decimal_Nil: "decimal [] = 0"
  by (simp add: decimal_def)

lemma literal_text_numeric:
  "wf_literal ip fp \<Longrightarrow> literal_text ip fp \<noteq> [] \<and> (\<forall>c \<in> set (literal_text ip fp). is_numeric c)"
proof -
  assume wf: "wf_literal ip fp"
  have point: "is_numeric CHR ''.''"
    by (simp add: is_numeric_def)
  show ?thesis
  proof (cases fp)
    case None
    then show ?thesis
      using wf by (auto simp: wf_literal_def literal_text_def list_all_iff digit_numeric)
  next
    case (Some f)
    then show ?thesis
      using wf point by (auto simp: wf_literal_def literal_text_def list_all_iff digit_numeric)
  qed
qed

lemma parseFloat_literal:
  assumes "wf_literal ip fp"
  shows "parseFloat (literal_text ip fp) = round_float64 (literal_value ip fp)"
proof (cases fp)
  case None
  have ip: "\<forall>c \<in> set ip. is_digit c" "ip \<noteq> []"
    using assms None by (simp_all add: wf_literal_def list_all_iff)
  have scan: "takeWhile is_digit ip = ip" "dropWhile is_digit ip = []"
    using ip by (simp_all add: takeWhile_eq_all_conv)
  show ?thesis
    using ip(2) None
    by (simp add: parseFloat_def literal_text_def literal_value_def decimal_Nil Let_def scan)
next
  case (Some f)
  have ip: "\<forall>c \<in> set ip. is_digit c" and f: "\<forall>c \<in> set f. is_digit c"
    and ne: "ip \<noteq> [] \<or> f \<noteq> []"
    using assms Some by (simp_all add: wf_literal_def list_all_iff)
  have scan: "takeWhile is_digit (ip @ CHR ''.'' # f) = ip"
    "dropWhile is_digit (ip @ CHR ''.'' # f) = CHR ''.'' # f"
    "takeWhile is_digit f = f"
    using ip f point_not_digit
    by (simp_all add: takeWhile_append2 dropWhile_append2 takeWhile_eq_all_conv)
  show ?thesis
    using ne Some
    by (auto simp: parseFloat_def literal_text_def literal_value_def Let_def scan)
qed

subsection \<open>The parenthesis check accepts every expression\<close>

lemma isValid_loop_skip:
  "\<forall>c \<in> set s. c \<noteq> CHR ''('' \<and> c \<noteq> CHR '')'' \<Longrightarrow>
     isValid_loop (s @ rest) stack = isValid_loop rest stack"
  by (induction s arbitrary: stack) (simp_all add: closeToOpen_def)

lemma isValid_loop_literal:
  "wf_literal ip fp \<Longrightarrow> isValid_loop (literal_text ip fp @ rest) stack = isValid_loop rest stack"
  using literal_text_numeric [of ip fp] numeric_not_paren
  by (intro isValid_loop_skip) blast

lemma isValid_loop_text:
  "wf_primary p \<longrightarrow> (\<forall>rest stack. isValid_loop (text_primary p @ rest) stack = isValid_loop rest stack)"
  "wf_multiplicative m \<longrightarrow>
     (\<forall>rest stack. isValid_loop (text_multiplicative m @ rest) stack = isValid_loop rest stack)"
  "wf_additive e \<longrightarrow>
     (\<forall>rest stack. isValid_loop (text_additive e @ rest) stack = isValid_loop rest stack)"
proof (induction p and m and e)
  case (Literal ip fp)
  then show ?case by (simp add: isValid_loop_literal)
next
  case (Group e)
  then show ?case by (simp add: closeToOpen_def)
next
  case (Primary p)
  then show ?case by simp
next
  case (Times m p)
  then show ?case by (simp add: closeToOpen_def)
next
  case (Over m p)
  then show ?case by (simp add: closeToOpen_def)
next
  case (Multiplicative m)
  then show ?case by simp
next
  case (Plus e m)
  then show ?case by (simp add: closeToOpen_def)
next
  case (Minus e m)
  then show ?case by (simp add: closeToOpen_def)
qed

lemma isValid_text: "wf_additive e \<Longrightarrow> isValid (text_additive e)"
  using isValid_loop_text(3) [of e] by (simp add: isValid_def) (metis append_Nil2 isValid_loop.simps(1) list.size(3))


subsection \<open>The tokenizer on an expression\<close>

lemma tokenize_loop_symbol:
  "is_symbol c \<Longrightarrow> \<not> is_numeric c \<Longrightarrow>
     tokenize_loop i (c # cs) res = tokenize_loop (i + 1) cs (res @ [StringToken [c]])"
  by simp

lemma symbol_chars:
  "is_symbol CHR ''('' \<and> \<not> is_numeric CHR ''(''"
  "is_symbol CHR '')'' \<and> \<not> is_numeric CHR '')''"
  "is_symbol CHR ''*'' \<and> \<not> is_numeric CHR ''*''"
  "is_symbol CHR ''/'' \<and> \<not> is_numeric CHR ''/''"
  "is_symbol CHR ''+'' \<and> \<not> is_numeric CHR ''+''"
  "is_symbol CHR ''-'' \<and> \<not> is_numeric CHR ''-''"
  by (simp_all add: is_symbol_def is_numeric_def)

lemma tokenize_loop_literal:
  assumes "wf_literal ip fp" and "rest = [] \<or> \<not> is_numeric (hd rest)"
  shows "tokenize_loop i (literal_text ip fp @ rest) res =
           tokenize_loop (i + length (literal_text ip fp)) rest
             (res @ [NumberToken (round_float64 (literal_value ip fp))])"
  using tokenize_loop_run [of "literal_text ip fp" rest i res]
    literal_text_numeric [OF assms(1)] assms(2) parseFloat_literal [OF assms(1)]
  by simp

lemma not_numeric_next_symbol:
  "not_numeric_next (CHR '')'' # cs)" "not_numeric_next (CHR ''*'' # cs)"
  "not_numeric_next (CHR ''/'' # cs)" "not_numeric_next (CHR ''+'' # cs)"
  "not_numeric_next (CHR ''-'' # cs)"
  by (simp_all add: not_numeric_next_def is_numeric_def)

lemma tokenize_loop_text:
  "wf_primary p \<longrightarrow> (\<forall>i rest res. not_numeric_next rest \<longrightarrow>
     tokenize_loop i (text_primary p @ rest) res =
       tokenize_loop (i + length (text_primary p)) rest (res @ tokens_primary p))"
  "wf_multiplicative m \<longrightarrow> (\<forall>i rest res. not_numeric_next rest \<longrightarrow>
     tokenize_loop i (text_multiplicative m @ rest) res =
       tokenize_loop (i + length (text_multiplicative m)) rest (res @ tokens_multiplicative m))"
  "wf_additive e \<longrightarrow> (\<forall>i rest res. not_numeric_next rest \<longrightarrow>
     tokenize_loop i (text_additive e @ rest) res =
       tokenize_loop (i + length (text_additive e)) rest (res @ tokens_additive e))"
proof (induction p and m and e)
  case (Literal ip fp)
  then show ?case
    by (simp add: tokenize_loop_literal not_numeric_next_def)
next
  case (Group e)
  then show ?case
    by (simp add: tokenize_loop_symbol symbol_chars not_numeric_next_symbol add.assoc
        del: tokenize_loop.simps)
next
  case (Primary p)
  then show ?case by simp
next
  case (Times m p)
  then show ?case
    by (simp add: tokenize_loop_symbol symbol_chars not_numeric_next_symbol add.assoc
        del: tokenize_loop.simps)
next
  case (Over m p)
  then show ?case
    by (simp add: tokenize_loop_symbol symbol_chars not_numeric_next_symbol add.assoc
        del: tokenize_loop.simps)
next
  case (Multiplicative m)
  then show ?case by simp
next
  case (Plus e m)
  then show ?case
    by (simp add: tokenize_loop_symbol symbol_chars not_numeric_next_symbol add.assoc
        del: tokenize_loop.simps)
next
  case (Minus e m)
  then show ?case
    by (simp add: tokenize_loop_symbol symbol_chars not_numeric_next_symbol add.assoc
        del: tokenize_loop.simps)
qed

lemma tokenize_text: "wf_additive e \<Longrightarrow> tokenize (text_additive e) = Inr (tokens_additive e)"
  using tokenize_loop_text(3) [of e]
  by (auto simp: tokenize_def not_numeric_next_def dest: spec [of _ 0] spec [of _ "[]"])


subsection \<open>The Shunting-Yard loop on an expression\<close>

lemma pending_multiplicative_cases:
  "pending_multiplicative m = [] \<or> pending_multiplicative m = [''*'']
     \<or> pending_multiplicative m = [''/'']"
  by (cases m) simp_all

lemma arithmetic_pending_multiplicative: "arithmetic_operators (pending_multiplicative m)"
  by (cases m) (simp_all add: arithmetic_operators_def)

lemma arithmetic_pending_additive: "arithmetic_operators (pending_additive e)"
  using arithmetic_pending_multiplicative
  by (cases e) (simp_all add: arithmetic_operators_def)

lemma emitted_pending_multiplicative:
  "emitted_multiplicative m @ map StringToken (pending_multiplicative m) = postfix_multiplicative m"
  by (cases m) simp_all

lemma emitted_pending_multiplicative_append:
  "emitted_multiplicative m @ map StringToken (pending_multiplicative m) @ ys =
     postfix_multiplicative m @ ys"
  by (cases m) simp_all

lemma emitted_pending_additive:
  "emitted_additive e @ map StringToken (pending_additive e) = postfix_additive e"
  by (cases e)
     (simp_all add: emitted_pending_multiplicative emitted_pending_multiplicative_append)

lemma pop_operators_stop:
  "at_additive opStack \<Longrightarrow> tk = ''*'' \<or> tk = ''/'' \<Longrightarrow>
     pop_operators tk outputQueue opStack = Inr (outputQueue, opStack)"
  by (cases opStack) (auto simp: isVaildOp_def precedence_def)

lemma pop_operators_multiplicative:
  assumes "at_additive opStack" and "tk = ''*'' \<or> tk = ''/''"
  shows "pop_operators tk outputQueue (pending_multiplicative m @ opStack) =
           Inr (outputQueue @ map StringToken (pending_multiplicative m), opStack)"
  using pending_multiplicative_cases [of m] assms pop_operators_stop [OF assms]
  by (auto simp: isVaildOp_def precedence_def)

lemma pop_operators_stop_paren:
  "at_paren opStack \<Longrightarrow> pop_operators tk outputQueue opStack = Inr (outputQueue, opStack)"
  by (cases opStack) (auto simp: isVaildOp_def)

lemma pop_operators_additive:
  assumes "at_paren opStack" and "tk = ''+'' \<or> tk = ''-''" and "arithmetic_operators q"
  shows "pop_operators tk outputQueue (q @ opStack) =
           Inr (outputQueue @ map StringToken q, opStack)"
  using assms(3)
proof (induction q arbitrary: outputQueue)
  case Nil
  then show ?case using assms(1) by (simp add: pop_operators_stop_paren)
next
  case (Cons x q)
  then have "arithmetic_operators q" and x: "x = ''+'' \<or> x = ''-'' \<or> x = ''*'' \<or> x = ''/''"
    by (auto simp: arithmetic_operators_def)
  with Cons.IH show ?case
    using assms(2) by (auto simp: isVaildOp_def precedence_def)
qed

lemma pop_until_paren_pending:
  "arithmetic_operators q \<Longrightarrow>
     pop_until_paren outputQueue (q @ ''('' # opStack) =
       Inr (outputQueue @ map StringToken q, ''('' # opStack)"
  by (induction q arbitrary: outputQueue) (auto simp: arithmetic_operators_def)

lemma drain_pending:
  "arithmetic_operators q \<Longrightarrow> drain outputQueue q = Inr (outputQueue @ map StringToken q)"
  by (induction q arbitrary: outputQueue) (auto simp: arithmetic_operators_def)

lemma at_paren_at_additive: "at_paren opStack \<Longrightarrow> at_additive opStack"
  by (cases opStack) simp_all

lemma shunting_yard_operator:
  "isVaildOp tk \<Longrightarrow> pop_operators tk outputQueue opStack = Inr (outputQueue', opStack') \<Longrightarrow>
     shunting_yard (StringToken tk # tokens) outputQueue opStack =
       shunting_yard tokens outputQueue' (tk # opStack')"
  by simp

lemma shunting_yard_open:
  "shunting_yard (StringToken ''('' # tokens) outputQueue opStack =
     shunting_yard tokens outputQueue (''('' # opStack)"
  by (simp add: isVaildOp_def)

lemma shunting_yard_close:
  "pop_until_paren outputQueue opStack = Inr (outputQueue', opStack') \<Longrightarrow>
     shunting_yard (StringToken '')'' # tokens) outputQueue opStack =
       shunting_yard tokens outputQueue' (pop opStack')"
  by (simp add: isVaildOp_def)

lemma valid_operators:
  "isVaildOp ''+''" "isVaildOp ''-''" "isVaildOp ''*''" "isVaildOp ''/''"
  by (simp_all add: isVaildOp_def)

lemma shunting_yard_tokens:
  "\<forall>tokens outputQueue opStack.
     shunting_yard (tokens_primary p @ tokens) outputQueue opStack =
       shunting_yard tokens (outputQueue @ postfix_primary p) opStack"
  "\<forall>tokens outputQueue opStack. at_additive opStack \<longrightarrow>
     shunting_yard (tokens_multiplicative m @ tokens) outputQueue opStack =
       shunting_yard tokens (outputQueue @ emitted_multiplicative m)
         (pending_multiplicative m @ opStack)"
  "\<forall>tokens outputQueue opStack. at_paren opStack \<longrightarrow>
     shunting_yard (tokens_additive e @ tokens) outputQueue opStack =
       shunting_yard tokens (outputQueue @ emitted_additive e) (pending_additive e @ opStack)"
proof (induction p and m and e)
  case (Literal ip fp)
  show ?case by simp
next
  case (Group e)
  show ?case
  proof (intro allI)
    fix tokens outputQueue opStack
    have "shunting_yard (tokens_primary (Group e) @ tokens) outputQueue opStack =
        shunting_yard (tokens_additive e @ StringToken '')'' # tokens) outputQueue (''('' # opStack)"
      by (simp add: shunting_yard_open del: shunting_yard.simps)
    also have "\<dots> = shunting_yard (StringToken '')'' # tokens)
        (outputQueue @ emitted_additive e) (pending_additive e @ ''('' # opStack)"
      using Group by simp
    also have "\<dots> = shunting_yard tokens
        (outputQueue @ emitted_additive e @ map StringToken (pending_additive e)) opStack"
      using shunting_yard_close [OF pop_until_paren_pending [OF arithmetic_pending_additive]]
      by simp
    finally show "shunting_yard (tokens_primary (Group e) @ tokens) outputQueue opStack =
        shunting_yard tokens (outputQueue @ postfix_primary (Group e)) opStack"
      by (simp add: emitted_pending_additive)
  qed
next
  case (Primary p)
  then show ?case by simp
next
  case (Times m p)
  show ?case
  proof (intro allI impI)
    fix tokens outputQueue opStack
    assume st: "at_additive opStack"
    have "shunting_yard (tokens_multiplicative (Times m p) @ tokens) outputQueue opStack =
        shunting_yard (StringToken ''*'' # tokens_primary p @ tokens)
          (outputQueue @ emitted_multiplicative m) (pending_multiplicative m @ opStack)"
      using Times(1) st by simp
    also have "\<dots> = shunting_yard (tokens_primary p @ tokens)
        ((outputQueue @ emitted_multiplicative m) @ map StringToken (pending_multiplicative m))
        (''*'' # opStack)"
      by (rule shunting_yard_operator [OF valid_operators(3)
            pop_operators_multiplicative [OF st]]) simp
    also have "\<dots> = shunting_yard tokens
        (outputQueue @ postfix_multiplicative m @ postfix_primary p) (''*'' # opStack)"
      using Times(2) by (simp add: emitted_pending_multiplicative)
    finally show "shunting_yard (tokens_multiplicative (Times m p) @ tokens) outputQueue opStack =
        shunting_yard tokens (outputQueue @ emitted_multiplicative (Times m p))
          (pending_multiplicative (Times m p) @ opStack)"
      by simp
  qed
next
  case (Over m p)
  show ?case
  proof (intro allI impI)
    fix tokens outputQueue opStack
    assume st: "at_additive opStack"
    have "shunting_yard (tokens_multiplicative (Over m p) @ tokens) outputQueue opStack =
        shunting_yard (StringToken ''/'' # tokens_primary p @ tokens)
          (outputQueue @ emitted_multiplicative m) (pending_multiplicative m @ opStack)"
      using Over(1) st by simp
    also have "\<dots> = shunting_yard (tokens_primary p @ tokens)
        ((outputQueue @ emitted_multiplicative m) @ map StringToken (pending_multiplicative m))
        (''/'' # opStack)"
      by (rule shunting_yard_operator [OF valid_operators(4)
            pop_operators_multiplicative [OF st]]) simp
    also have "\<dots> = shunting_yard tokens
        (outputQueue @ postfix_multiplicative m @ postfix_primary p) (''/'' # opStack)"
      using Over(2) by (simp add: emitted_pending_multiplicative)
    finally show "shunting_yard (tokens_multiplicative (Over m p) @ tokens) outputQueue opStack =
        shunting_yard tokens (outputQueue @ emitted_multiplicative (Over m p))
          (pending_multiplicative (Over m p) @ opStack)"
      by simp
  qed
next
  case (Multiplicative m)
  then show ?case by (simp add: at_paren_at_additive)
next
  case (Plus e m)
  show ?case
  proof (intro allI impI)
    fix tokens outputQueue opStack
    assume st: "at_paren opStack"
    have "shunting_yard (tokens_additive (Plus e m) @ tokens) outputQueue opStack =
        shunting_yard (StringToken ''+'' # tokens_multiplicative m @ tokens)
          (outputQueue @ emitted_additive e) (pending_additive e @ opStack)"
      using Plus(1) st by simp
    also have "\<dots> = shunting_yard (tokens_multiplicative m @ tokens)
        ((outputQueue @ emitted_additive e) @ map StringToken (pending_additive e))
        (''+'' # opStack)"
      by (rule shunting_yard_operator [OF valid_operators(1)
            pop_operators_additive [OF st _ arithmetic_pending_additive]]) simp
    also have "\<dots> = shunting_yard tokens
        (outputQueue @ postfix_additive e @ emitted_multiplicative m)
        (pending_multiplicative m @ ''+'' # opStack)"
      using Plus(2) by (simp add: emitted_pending_additive)
    finally show "shunting_yard (tokens_additive (Plus e m) @ tokens) outputQueue opStack =
        shunting_yard tokens (outputQueue @ emitted_additive (Plus e m))
          (pending_additive (Plus e m) @ opStack)"
      by simp
  qed
next
  case (Minus e m)
  show ?case
  proof (intro allI impI)
    fix tokens outputQueue opStack
    assume st: "at_paren opStack"
    have "shunting_yard (tokens_additive (Minus e m) @ tokens) outputQueue opStack =
        shunting_yard (StringToken ''-'' # tokens_multiplicative m @ tokens)
          (outputQueue @ emitted_additive e) (pending_additive e @ opStack)"
      using Minus(1) st by simp
    also have "\<dots> = shunting_yard (tokens_multiplicative m @ tokens)
        ((outputQueue @ emitted_additive e) @ map StringToken (pending_additive e))
        (''-'' # opStack)"
      by (rule shunting_yard_operator [OF valid_operators(2)
            pop_operators_additive [OF st _ arithmetic_pending_additive]]) simp
    also have "\<dots> = shunting_yard tokens
        (outputQueue @ postfix_additive e @ emitted_multiplicative m)
        (pending_multiplicative m @ ''-'' # opStack)"
      using Minus(2) by (simp add: emitted_pending_additive)
    finally show "shunting_yard (tokens_additive (Minus e m) @ tokens) outputQueue opStack =
        shunting_yard tokens (outputQueue @ emitted_additive (Minus e m))
          (pending_additive (Minus e m) @ opStack)"
      by simp
  qed
qed

lemma infix_to_rpn_tokens: "infix_to_rpn (tokens_additive e) = Inr (postfix_additive e)"
proof -
  have "shunting_yard (tokens_additive e @ []) [] [] =
      shunting_yard [] ([] @ emitted_additive e) (pending_additive e @ [])"
    using shunting_yard_tokens(3) [of e] by (metis at_paren.simps(1))
  then have "shunting_yard (tokens_additive e) [] [] = Inr (emitted_additive e, pending_additive e)"
    by simp
  then show ?thesis
    by (simp add: infix_to_rpn_def drain_pending [OF arithmetic_pending_additive]
        emitted_pending_additive)
qed


subsection \<open>The tree builder on a postfix form\<close>

lemma build_postfix:
  "\<forall>tokens astStack.
     build (postfix_primary p @ tokens) astStack = build tokens (tree_primary p # astStack)"
  "\<forall>tokens astStack.
     build (postfix_multiplicative m @ tokens) astStack =
       build tokens (tree_multiplicative m # astStack)"
  "\<forall>tokens astStack.
     build (postfix_additive e @ tokens) astStack = build tokens (tree_additive e # astStack)"
  by (induction p and m and e) simp_all

lemma rpn_to_ast_postfix: "rpn_to_ast (postfix_additive e) = Inr (tree_additive e)"
proof -
  have "build (postfix_additive e @ []) [] = build [] (tree_additive e # [])"
    using build_postfix(3) by blast
  then show ?thesis
    by (simp add: rpn_to_ast_def)
qed

subsection \<open>Evaluation of the tree of an expression\<close>

lemma evaluate_arithmetic:
  "evaluate (BinaryOperationNode l r ''+'') =
     (case evaluate l of Inl e \<Rightarrow> Inl e | Inr a \<Rightarrow>
        (case evaluate r of Inl e \<Rightarrow> Inl e | Inr b \<Rightarrow>
           Inr (Number (number_add (ToNumber a) (ToNumber b)))))"
  "evaluate (BinaryOperationNode l r ''-'') =
     (case evaluate l of Inl e \<Rightarrow> Inl e | Inr a \<Rightarrow>
        (case evaluate r of Inl e \<Rightarrow> Inl e | Inr b \<Rightarrow>
           Inr (Number (number_sub (ToNumber a) (ToNumber b)))))"
  "evaluate (BinaryOperationNode l r ''*'') =
     (case evaluate l of Inl e \<Rightarrow> Inl e | Inr a \<Rightarrow>
        (case evaluate r of Inl e \<Rightarrow> Inl e | Inr b \<Rightarrow>
           Inr (Number (number_mul (ToNumber a) (ToNumber b)))))"
  "evaluate (BinaryOperationNode l r ''/'') =
     (case evaluate l of Inl e \<Rightarrow> Inl e | Inr a \<Rightarrow>
        (case evaluate r of Inl e \<Rightarrow> Inl e | Inr b \<Rightarrow>
           if b = Number (Finite 0) then Inl DivisionByZero
           else Inr (Number (number_div (ToNumber a) (ToNumber b)))))"
  by (simp_all add: apply_operator_def strict_equal_zero split: sum.splits)

lemma finite_arithmetic:
  "number_add (Finite a) (Finite b) = round_float64 (a + b)"
  "number_sub (Finite a) (Finite b) = round_float64 (a - b)"
  "number_mul (Finite a) (Finite b) = round_float64 (a * b)"
  "b \<noteq> 0 \<Longrightarrow> number_div (Finite a) (Finite b) = round_float64 (a / b)"
  by (simp_all add: number_add_def number_sub_def number_negate_def number_mul_def number_div_def)

lemma evaluate_tree:
  "exact_primary p \<longrightarrow> evaluate (tree_primary p) = expected (value_primary p)"
  "exact_multiplicative m \<longrightarrow>
     evaluate (tree_multiplicative m) = expected (value_multiplicative m)"
  "exact_additive e \<longrightarrow> evaluate (tree_additive e) = expected (value_additive e)"
proof (induction p and m and e)
  case (Literal ip fp)
  show ?case by (simp add: expected_def representable_def)
next
  case (Group e)
  then show ?case by simp
next
  case (Primary p)
  then show ?case by simp
next
  case (Times m p)
  then show ?case
    by (simp add: evaluate_arithmetic finite_arithmetic expected_def lift_binary_def
        representable_result_def representable_def
        del: evaluate.simps(2) split: option.splits)
next
  case (Over m p)
  then show ?case
    by (simp add: evaluate_arithmetic finite_arithmetic expected_def lift_binary_def
        representable_result_def representable_def
        del: evaluate.simps(2) split: option.splits)
next
  case (Multiplicative m)
  then show ?case by simp
next
  case (Plus e m)
  then show ?case
    by (simp add: evaluate_arithmetic finite_arithmetic expected_def lift_binary_def
        representable_result_def representable_def
        del: evaluate.simps(2) split: option.splits)
next
  case (Minus e m)
  then show ?case
    by (simp add: evaluate_arithmetic finite_arithmetic expected_def lift_binary_def
        representable_result_def representable_def
        del: evaluate.simps(2) split: option.splits)
qed

subsection \<open>parse on an expression\<close>

lemma parse_expression:
  assumes "wf_additive e" and "strip_whitespace expr = text_additive e"
  shows "parse expr = Inr (tree_additive e)"
  using isValid_text [OF assms(1)] tokenize_text [OF assms(1)]
  by (simp add: parse_def assms(2) infix_to_rpn_tokens rpn_to_ast_postfix)

lemma evaluate_precedence_example:
  "parse_and_evaluate ''3 + 4 * 2 / (1 - 5) + 7'' = Inr (Number (Finite 8))"
  by code_simp

lemma float64_examples:
  "round_float64 (1 / 10) = Finite (3602879701896397 / 36028797018963968)"
  "round_float64 9007199254740993 = Finite 9007199254740992"
  "round_float64 9007199254740995 = Finite 9007199254740996"
  "parse_and_evaluate ''9007199254740993 - 9007199254740992'' = Inr (Number (Finite 0))"
  "parse_and_evaluate ''4.35 * 100'' = Inr (Number (Finite (7652600929320959 / 17592186044416)))"
  "parse_and_evaluate ''1 / (0.1 + 0.2 - 0.3)'' = Inr (Number (Finite 18014398509481984))"
  by code_simp+

text \<open>
  \<open>0.1 + 0.2\<close> is an expression of value 3/10, but \<open>parse("0.1 + 0.2").evaluate()\<close> is
  not 3/10: it is \<open>0.30000000000000004\<close>, the float64 number
  \<open>1351079888211149 / 2^52\<close>. The numbers 0.1 and 0.2 are rounded when they are read,
  and their sum is rounded again.
\<close>

theorem parse_arithmetic_rounds:
  "wf_additive
     (Plus (Multiplicative (Primary (Literal ''0'' (Some ''1''))))
        (Primary (Literal ''0'' (Some ''2''))))
   \<and> strip_whitespace ''0.1 + 0.2'' =
       text_additive
         (Plus (Multiplicative (Primary (Literal ''0'' (Some ''1''))))
            (Primary (Literal ''0'' (Some ''2''))))
   \<and> value_additive
         (Plus (Multiplicative (Primary (Literal ''0'' (Some ''1''))))
            (Primary (Literal ''0'' (Some ''2'')))) = Some (3 / 10)
   \<and> parse_and_evaluate ''0.1 + 0.2'' =
       Inr (Number (Finite (1351079888211149 / 4503599627370496)))
   \<and> parse_and_evaluate ''0.1 + 0.2'' \<noteq> Inr (Number (Finite (3 / 10)))"
proof -
  let ?g = "Plus (Multiplicative (Primary (Literal ''0'' (Some ''1''))))
      (Primary (Literal ''0'' (Some ''2'')))"
  have a: "wf_additive ?g \<and> strip_whitespace ''0.1 + 0.2'' = text_additive ?g"
    by code_simp
  have b: "value_additive ?g = Some (3 / 10)"
    by code_simp
  have c: "parse_and_evaluate ''0.1 + 0.2'' =
      Inr (Number (Finite (1351079888211149 / 4503599627370496)))"
    by code_simp
  show ?thesis
    using a b c by simp
qed

text \<open>
  Claim C2, amended. Let \<open>g\<close> be an expression built from decimal numbers, \<open>+ - * /\<close> and
  parentheses, and let the input without its blanks be the text of \<open>g\<close>. Then \<open>parse\<close>
  returns the tree of \<open>g\<close>, in which \<open>*\<close> and \<open>/\<close> bind tighter than \<open>+\<close> and \<open>-\<close>,
  operators of one level associate to the left, and each number is the float64 number
  nearest to it. If \<open>g\<close> is exact (each of its numbers and the value of each of its
  subexpressions is a float64 number), evaluating that tree gives the value of \<open>g\<close> when
  no division in \<open>g\<close> has a right operand of value 0, and fails with \<open>DivisionByZero\<close>
  otherwise. \<open>parse("3 + 4 * 2 / (1 - 5) + 7").evaluate()\<close> is 8.
\<close>

theorem parse_arithmetic_value:
  "(wf_additive g \<and> strip_whitespace expr = text_additive g \<longrightarrow>
      parse expr = Inr (tree_additive g)
      \<and> (exact_additive g \<longrightarrow>
           (\<forall>v. value_additive g = Some v \<longrightarrow>
              parse_and_evaluate expr = Inr (Number (Finite v)))
           \<and> (value_additive g = None \<longrightarrow> parse_and_evaluate expr = Inl DivisionByZero)))
   \<and> parse_and_evaluate ''3 + 4 * 2 / (1 - 5) + 7'' = Inr (Number (Finite 8))"
proof -
  have "parse expr = Inr (tree_additive g)
      \<and> (exact_additive g \<longrightarrow>
           (\<forall>v. value_additive g = Some v \<longrightarrow>
              parse_and_evaluate expr = Inr (Number (Finite v)))
           \<and> (value_additive g = None \<longrightarrow> parse_and_evaluate expr = Inl DivisionByZero))"
    if "wf_additive g" and "strip_whitespace expr = text_additive g"
    using parse_expression [OF that] evaluate_tree(3) [of g]
    by (simp add: parse_and_evaluate_def expected_def)
  then show ?thesis
    using evaluate_precedence_example by blast
qed

theorem parse_arithmetic_value_witness:
  "parse ''3 + 4 * 2 / (1 - 5) + 7'' =
     Inr (BinaryOperationNode
           (BinaryOperationNode (NumberNode (Finite 3))
             (BinaryOperationNode
               (BinaryOperationNode (NumberNode (Finite 4)) (NumberNode (Finite 2)) ''*'')
               (BinaryOperationNode (NumberNode (Finite 1)) (NumberNode (Finite 5)) ''-'')
               ''/'')
             ''+'')
           (NumberNode (Finite 7)) ''+'')
   \<and> parse_and_evaluate ''3 + 4 * 2 / (1 - 5) + 7'' = Inr (Number (Finite 8))
   \<and> parse_and_evaluate '' 8 - 3 - 2.5 '' = Inr (Number (Finite (5 / 2)))
   \<and> parse_and_evaluate ''1 / (2 - 2)'' = Inl DivisionByZero"
proof -
  let ?lit = "\<lambda>s. Primary (Literal s None)"
  let ?g = "Plus
      (Plus (Multiplicative (?lit ''3''))
        (Over (Times (?lit ''4'') (Literal ''2'' None))
          (Group (Minus (Multiplicative (?lit ''1'')) (?lit ''5'')))))
      (?lit ''7'')"
  let ?h = "Minus (Minus (Multiplicative (?lit ''8'')) (?lit ''3''))
      (Primary (Literal ''2'' (Some ''5'')))"
  have g: "wf_additive ?g \<and> strip_whitespace ''3 + 4 * 2 / (1 - 5) + 7'' = text_additive ?g"
    by code_simp
  have gx: "exact_additive ?g"
    by code_simp
  have gv: "value_additive ?g = Some 8"
    by code_simp
  have gt: "tree_additive ?g =
      BinaryOperationNode
           (BinaryOperationNode (NumberNode (Finite 3))
             (BinaryOperationNode
               (BinaryOperationNode (NumberNode (Finite 4)) (NumberNode (Finite 2)) ''*'')
               (BinaryOperationNode (NumberNode (Finite 1)) (NumberNode (Finite 5)) ''-'')
               ''/'')
             ''+'')
           (NumberNode (Finite 7)) ''+''"
    by code_simp
  have h: "wf_additive ?h \<and> strip_whitespace '' 8 - 3 - 2.5 '' = text_additive ?h"
    by code_simp
  have hx: "exact_additive ?h"
    by code_simp
  have hv: "value_additive ?h = Some (5 / 2)"
    by code_simp
  let ?z = "Multiplicative
      (Over (?lit ''1'') (Group (Minus (Multiplicative (?lit ''2'')) (?lit ''2''))))"
  have z: "wf_additive ?z \<and> strip_whitespace ''1 / (2 - 2)'' = text_additive ?z"
    by code_simp
  have zx: "exact_additive ?z"
    by code_simp
  have zv: "value_additive ?z = None"
    by code_simp
  show ?thesis
    using parse_arithmetic_value [of ?g "''3 + 4 * 2 / (1 - 5) + 7''"]
      parse_arithmetic_value [of ?h "'' 8 - 3 - 2.5 ''"]
      parse_arithmetic_value [of ?z "''1 / (2 - 2)''"] g gx gv gt h hx hv z zx zv
    by simp
qed

end
